theory Spec2Isabelle
  imports Main
begin

section \<open>Numbers, instants and strings of the JavaScript source\<close>

text \<open>
  An instant is the result of \<^verbatim>\<open>new Date(x).getTime()\<close>: milliseconds since the epoch,
  or NaN when \<^verbatim>\<open>x\<close> is not a date. NaN is \<open>None\<close>; every comparison with NaN is false,
  as in JavaScript (and as a MongoDB range condition on a missing field never matches).
\<close>

type_synonym instant = "int option"

fun num_lt :: "instant \<Rightarrow> instant \<Rightarrow> bool" where
  "num_lt (Some a) (Some b) = (a < b)"
| "num_lt _ _ = False"

definition num_gt :: "instant \<Rightarrow> instant \<Rightarrow> bool" where
  "num_gt a b = num_lt b a"

text \<open>
  The overlap test, written inline three times in \<^verbatim>\<open>api.js\<close>:
  \<^verbatim>\<open>slotStartTime < busyEnd && slotEndTime > busyStart\<close> (twice in
  \<^verbatim>\<open>isSlotConflicting\<close>) and, as a query,
  \<^verbatim>\<open>startDateTime: { $lt: end }, endDateTime: { $gt: start }\<close> in the booking handler.
\<close>

definition overlaps :: "instant \<Rightarrow> instant \<Rightarrow> instant \<Rightarrow> instant \<Rightarrow> bool" where
  "overlaps aStart aEnd bStart bEnd = (num_lt aStart bEnd \<and> num_gt aEnd bStart)"

subsection \<open>Decimal text\<close>

definition isDigit :: "char \<Rightarrow> bool" where
  "isDigit c = (c \<in> set ''0123456789'')"

text \<open>A digit is its position in the text of the ten digits.\<close>

definition digitVal :: "char \<Rightarrow> nat" where
  "digitVal c = (if isDigit c then length (takeWhile (\<lambda>d. d \<noteq> c) ''0123456789'') else 0)"

definition digitChar :: "nat \<Rightarrow> char" where
  "digitChar n = ''0123456789'' ! (n mod 10)"

text \<open>\<^verbatim>\<open>parseInt\<close> and \<^verbatim>\<open>Number\<close> on a run of decimal digits (the empty run is 0).\<close>

definition digitsValue :: "string \<Rightarrow> nat" where
  "digitsValue s = foldl (\<lambda>acc c. acc * 10 + digitVal c) 0 s"

text \<open>\<^verbatim>\<open>n.toString()\<close> for an integer.\<close>

function natToString :: "nat \<Rightarrow> string" where
  "natToString n = (if n < 10 then [digitChar n] else natToString (n div 10) @ [digitChar (n mod 10)])"
  by pat_completeness auto
termination
  by (relation "measure id") auto

declare natToString.simps [simp del]

definition toString :: "int \<Rightarrow> string" where
  "toString i = (if i < 0 then CHR ''-'' # natToString (nat (- i)) else natToString (nat i))"

text \<open>\<^verbatim>\<open>s.padStart(2, '0')\<close>.\<close>

definition padStart2 :: "string \<Rightarrow> string" where
  "padStart2 s = replicate (2 - length s) CHR ''0'' @ s"

text \<open>
  \<^verbatim>\<open>a % b\<close> takes the sign of the dividend; \<^verbatim>\<open>Math.floor(a / b)\<close> is \<open>a div b\<close>
  on integers.
\<close>

definition js_rem :: "int \<Rightarrow> int \<Rightarrow> int" where
  "js_rem a b = (if a < 0 then - ((- a) mod \<bar>b\<bar>) else a mod \<bar>b\<bar>)"

subsection \<open>Parsing the ISO text of a slot\<close>

text \<open>
  Every date-time text the source builds has the form
  \<^verbatim>\<open>${date}T${HH}:${MM}:${SS}+05:30\<close>. \<open>dateGetTime cal isoText\<close> is
  \<^verbatim>\<open>new Date(isoText).getTime()\<close> on such a text. The parameter \<open>cal\<close> is the calendar:
  \<open>cal d\<close> is the epoch millisecond of \<^verbatim>\<open>${d}T00:00:00Z\<close> for a
  \<^verbatim>\<open>YYYY-MM-DD\<close> text \<open>d\<close>, and \<open>None\<close> when \<open>d\<close> is not a date. A text of any other
  shape, or with a time of day out of range, is NaN. The hour 24 is accepted with
  \<^verbatim>\<open>24:00:00\<close> only, as in the ECMAScript date-time format.
\<close>

definition twoDigits :: "string \<Rightarrow> nat option" where
  "twoDigits s = (if length s = 2 \<and> list_all isDigit s then Some (digitsValue s) else None)"

definition dateGetTime :: "(string \<Rightarrow> int option) \<Rightarrow> string \<Rightarrow> instant" where
  "dateGetTime cal isoText =
     (let d = take 10 isoText; r = drop 10 isoText in
      if length r = 15 \<and> take 1 r = ''T'' \<and> take 1 (drop 3 r) = '':''
         \<and> take 1 (drop 6 r) = '':'' \<and> drop 9 r = ''+05:30''
      then (case (twoDigits (take 2 (drop 1 r)), twoDigits (take 2 (drop 4 r)),
                  twoDigits (take 2 (drop 7 r))) of
              (Some h, Some m, Some s) \<Rightarrow>
                if (h < 24 \<and> m < 60 \<and> s < 60) \<or> (h = 24 \<and> m = 0 \<and> s = 0)
                then map_option
                       (\<lambda>base. base + ((int h * 60 + int m) * 60 + int s) * 1000 - 19800000)
                       (cal d)
                else None
            | _ \<Rightarrow> None)
      else None)"

section \<open>Conflict checking: \<^verbatim>\<open>isSlotConflicting\<close>\<close>

text \<open>
  A busy period of the external calendar, with the two instants that
  \<^verbatim>\<open>new Date(busy.start).getTime()\<close> and \<^verbatim>\<open>new Date(busy.end).getTime()\<close> give.
\<close>

record busy_period =
  busyStart :: instant
  busyEnd :: instant

text \<open>
  A stored appointment. Of the two appointment schemas of the repository this is the one
  with the required display fields (doctor name and specialty, patient name and email,
  date, slot text), which the booking handler fills. \<open>startDateTime\<close> and \<open>endDateTime\<close>
  are the stored dates as instants; \<open>None\<close> is a document without the field.
\<close>

record appointment =
  appointmentId :: string
  doctorId :: string
  doctorName :: string
  doctorSpecialty :: string
  patientId :: string
  patientName :: string
  patientPhone :: "string option"
  patientEmail :: "string option"
  date :: string
  timeSlot :: string
  startDateTime :: instant
  endDateTime :: instant
  googleEventId :: string
  status :: string
  paymentStatus :: string

text \<open>
  The two \<^verbatim>\<open>for\<close> loops return true at the first overlapping element: an existence test,
  first over the busy periods, then over the appointments.
\<close>

fun busyLoop :: "instant \<Rightarrow> instant \<Rightarrow> busy_period list \<Rightarrow> bool" where
  "busyLoop slotStartTime slotEndTime [] = False"
| "busyLoop slotStartTime slotEndTime (busy # rest) =
     (if num_lt slotStartTime (busyEnd busy) \<and> num_gt slotEndTime (busyStart busy) then True
      else busyLoop slotStartTime slotEndTime rest)"

fun apptLoop :: "instant \<Rightarrow> instant \<Rightarrow> appointment list \<Rightarrow> bool" where
  "apptLoop slotStartTime slotEndTime [] = False"
| "apptLoop slotStartTime slotEndTime (appt # rest) =
     (if num_lt slotStartTime (endDateTime appt) \<and> num_gt slotEndTime (startDateTime appt)
      then True
      else apptLoop slotStartTime slotEndTime rest)"

definition isSlotConflicting ::
  "(string \<Rightarrow> int option) \<Rightarrow> string \<Rightarrow> string \<Rightarrow> busy_period list \<Rightarrow> appointment list \<Rightarrow> bool"
where
  "isSlotConflicting cal slotStart slotEnd busyPeriods existingAppointments =
     (let slotStartTime = dateGetTime cal slotStart;
          slotEndTime = dateGetTime cal slotEnd in
      if busyLoop slotStartTime slotEndTime busyPeriods then True
      else if apptLoop slotStartTime slotEndTime existingAppointments then True
      else False)"

section \<open>Slot generation: \<^verbatim>\<open>generateAvailableSlots\<close>\<close>

text \<open>\<^verbatim>\<open>formatTimeDisplay(hour, minute)\<close>: the 12-hour display text of a time of day.\<close>

definition formatTimeDisplay :: "int \<Rightarrow> int \<Rightarrow> string" where
  "formatTimeDisplay hour minute =
     (let period = (if hour \<ge> 12 then ''PM'' else ''AM'');
          displayHour = (if hour > 12 then hour - 12 else (if hour = 0 then 12 else hour))
      in padStart2 (toString displayHour) @ '':'' @ padStart2 (toString minute) @ '' '' @ period)"

text \<open>The object pushed for an available slot.\<close>

record slot =
  time :: string
  startTime :: string
  endTime :: string
  startISO :: string
  endISO :: string

text \<open>
  \<^verbatim>\<open>startTime.split(':').map(Number)\<close>, destructured into its first two numbers. The
  working hours are texts such as \<^verbatim>\<open>"09:00"\<close>; \<open>jsNumber\<close> is \<^verbatim>\<open>Number\<close> on a run
  of decimal digits (the empty text is 0) and \<open>None\<close> stands for NaN on any other text
  (the numeral forms with sign, fraction, exponent, radix prefix or blanks are outside the
  working-hours format and are not modelled). A missing second part is
  \<^verbatim>\<open>undefined\<close>, which makes the sum NaN as well.
\<close>

fun splitColon :: "string \<Rightarrow> string list" where
  "splitColon [] = [[]]"
| "splitColon (c # cs) =
     (if c = CHR '':'' then [] # splitColon cs
      else (case splitColon cs of [] \<Rightarrow> [[c]] | p # ps \<Rightarrow> (c # p) # ps))"

definition jsNumber :: "string \<Rightarrow> int option" where
  "jsNumber s = (if list_all isDigit s then Some (int (digitsValue s)) else None)"

definition hourMinute :: "string \<Rightarrow> (int \<times> int) option" where
  "hourMinute s =
     (case splitColon s of
        h # m # _ \<Rightarrow>
          (case (jsNumber h, jsNumber m) of (Some a, Some b) \<Rightarrow> Some (a, b) | _ \<Rightarrow> None)
      | _ \<Rightarrow> None)"

text \<open>
  The \<^verbatim>\<open>while (currentMinutes + 30 <= endMinutes)\<close> loop; \<open>slots\<close> is the array being
  filled by \<^verbatim>\<open>slots.push\<close>.
\<close>

function slotLoop ::
  "(string \<Rightarrow> int option) \<Rightarrow> string \<Rightarrow> busy_period list \<Rightarrow> appointment list \<Rightarrow> int
     \<Rightarrow> slot list \<Rightarrow> int \<Rightarrow> slot list"
where
  "slotLoop cal date' busyPeriods existingAppointments endMinutes slots currentMinutes =
     (if currentMinutes + 30 \<le> endMinutes then
        (let slotHour = currentMinutes div 60;
             slotMinute = js_rem currentMinutes 60;
             nextMinutes = currentMinutes + 30;
             nextHour = nextMinutes div 60;
             nextMinute = js_rem nextMinutes 60;
             slotStart = padStart2 (toString slotHour) @ '':'' @ padStart2 (toString slotMinute);
             slotEnd = padStart2 (toString nextHour) @ '':'' @ padStart2 (toString nextMinute);
             slotStartISO = date' @ ''T'' @ slotStart @ '':00+05:30'';
             slotEndISO = date' @ ''T'' @ slotEnd @ '':00+05:30'';
             isAvailable =
               (\<not> isSlotConflicting cal slotStartISO slotEndISO busyPeriods existingAppointments)
         in slotLoop cal date' busyPeriods existingAppointments endMinutes
              (if isAvailable then
                 slots @ [\<lparr> time = formatTimeDisplay slotHour slotMinute @ '' - ''
                                    @ formatTimeDisplay nextHour nextMinute,
                             startTime = slotStart, endTime = slotEnd,
                             startISO = slotStartISO, endISO = slotEndISO \<rparr>]
               else slots)
              (currentMinutes + 30))
      else slots)"
  by pat_completeness auto
termination
  by (relation "measure (\<lambda>(cal, date', busy, appts, endMinutes, slots, currentMinutes).
                  nat (endMinutes - currentMinutes))") auto

declare slotLoop.simps [simp del]

definition generateAvailableSlots ::
  "(string \<Rightarrow> int option) \<Rightarrow> string \<Rightarrow> string \<Rightarrow> string \<Rightarrow> busy_period list
     \<Rightarrow> appointment list \<Rightarrow> slot list"
where
  "generateAvailableSlots cal date' startTime' endTime' busyPeriods existingAppointments =
     (case (hourMinute startTime', hourMinute endTime') of
        (Some (startHour, startMinute), Some (endHour, endMinute)) \<Rightarrow>
          slotLoop cal date' busyPeriods existingAppointments (endHour * 60 + endMinute) []
            (startHour * 60 + startMinute)
      | _ \<Rightarrow> [])"

subsection \<open>The candidate slots, for stating the properties of the loop\<close>

text \<open>
  \<open>slotAt date' m\<close> is the object the loop body builds in the iteration with
  \<^verbatim>\<open>currentMinutes = m\<close>, \<open>slotStarts dayStart dayEnd\<close> the values
  \<^verbatim>\<open>currentMinutes\<close> takes, and \<open>slotFree\<close> the availability test of the body.
\<close>

definition hhmm :: "int \<Rightarrow> string" where
  "hhmm m = padStart2 (toString (m div 60)) @ '':'' @ padStart2 (toString (js_rem m 60))"

definition slotAt :: "string \<Rightarrow> int \<Rightarrow> slot" where
  "slotAt date' m =
     \<lparr> time = formatTimeDisplay (m div 60) (js_rem m 60) @ '' - ''
                @ formatTimeDisplay ((m + 30) div 60) (js_rem (m + 30) 60),
       startTime = hhmm m, endTime = hhmm (m + 30),
       startISO = date' @ ''T'' @ hhmm m @ '':00+05:30'',
       endISO = date' @ ''T'' @ hhmm (m + 30) @ '':00+05:30'' \<rparr>"

definition slotStarts :: "int \<Rightarrow> int \<Rightarrow> int list" where
  "slotStarts dayStart dayEnd =
     map (\<lambda>k. dayStart + 30 * int k) [0 ..< nat ((dayEnd - dayStart) div 30)]"

definition slotFree ::
  "(string \<Rightarrow> int option) \<Rightarrow> busy_period list \<Rightarrow> appointment list \<Rightarrow> slot \<Rightarrow> bool"
where
  "slotFree cal busyPeriods existingAppointments s =
     (\<not> isSlotConflicting cal (startISO s) (endISO s) busyPeriods existingAppointments)"

section \<open>The stores and the outside world\<close>

text \<open>
  The three collections, each in insertion order (\<^verbatim>\<open>findOne\<close> answers the first match).
  An optional field of a document or of a request body is an \<open>option\<close>; \<open>truthy\<close> is
  JavaScript's truth test on such a text (\<^verbatim>\<open>undefined\<close> and the empty text are false).
  Only the fields the modelled handlers read are kept: the doctor's time zone and fee, and
  the reason and type of a booking, flow into message texts alone.
\<close>

record day_availability =
  available :: bool
  availStart :: "string option"
  availEnd :: "string option"

record doctor =
  d_doctorId :: string
  d_name :: string
  d_specialty :: string
  d_email :: "string option"
  d_calendarId :: "string option"
  d_availability :: "(string \<Rightarrow> day_availability option) option"

record patient =
  p_patientId :: string
  p_name :: "string option"
  p_email :: "string option"
  p_phone :: "string option"

record server_state =
  doctors :: "doctor list"
  patients :: "patient list"
  appointments :: "appointment list"

definition truthy :: "string option \<Rightarrow> bool" where
  "truthy v = (case v of None \<Rightarrow> False | Some s \<Rightarrow> s \<noteq> [])"

definition textOf :: "string option \<Rightarrow> string" where
  "textOf v = (case v of None \<Rightarrow> [] | Some s \<Rightarrow> s)"

text \<open>\<^verbatim>\<open>a || b\<close> on an optional text and a text.\<close>

definition orElse :: "string option \<Rightarrow> string \<Rightarrow> string" where
  "orElse v d = (if truthy v then textOf v else d)"

text \<open>
  What the outside world answers during one request: the random identifiers
  (\<^verbatim>\<open>uuidv4().slice(0, 8)\<close> behind their prefix), the clock, the calendar service
  (\<open>Inl\<close> is a thrown error with its message), the mail transport, and whether
  \<^verbatim>\<open>process.env.SMTP_HOST\<close> is set.
\<close>

record calendar_event =
  eventId :: string
  htmlLink :: "string option"

record env =
  newPatientId :: string
  newAppointmentId :: string
  nowMs :: int
  createEventResult :: "string + calendar_event"
  freeBusyResult :: "string + busy_period list option"
  smtpHost :: bool
  transportResult :: "string + string"

text \<open>The calls a handler makes to its collaborators, in order.\<close>

datatype call =
  DoctorFindOne string
| PatientFindOne
| PatientSave string
| AppointmentFindOne string
| AppointmentFind string string
| AppointmentSave string
| AppointmentDeleteOne string
| GetFreeBusy string string string
| CreateEvent string string
| SendConfirmationEmail string

datatype email_status = MailSent string | MailSkipped string | MailError string

text \<open>
  A response: the HTTP status (200 when the source calls \<^verbatim>\<open>res.json\<close> alone) and the body.
  A body carries the records its fields are read from.
\<close>

datatype reply_body =
  ErrorBody string
| SlotsBody "slot list" "string option"
| BookedBody appointment patient "email_status option" "string option"
| AlreadyRegisteredBody patient
| RegisteredBody patient
| PatientBody patient
| CancelledBody string

record reply =
  httpStatus :: nat
  body :: reply_body

definition errorReply :: "nat \<Rightarrow> string \<Rightarrow> reply" where
  "errorReply code msg = \<lparr> httpStatus = code, body = ErrorBody msg \<rparr>"

definition okReply :: "reply_body \<Rightarrow> reply" where
  "okReply b = \<lparr> httpStatus = 200, body = b \<rparr>"

section \<open>Booking: \<^verbatim>\<open>POST /appointments/book\<close>\<close>

record book_request =
  b_doctorId :: "string option"
  b_doctorName :: "string option"
  b_doctorSpecialty :: "string option"
  b_patientName :: "string option"
  b_patientEmail :: "string option"
  b_patientPhone :: "string option"
  b_date :: "string option"
  b_timeSlot :: "string option"

subsection \<open>The patient of the booking\<close>

text \<open>
  \<^verbatim>\<open>Patient.findOne({ $or: [{ email: patientEmail }, { phone: patientPhone }] })\<close>: a
  condition on an \<^verbatim>\<open>undefined\<close> value is taken to select the documents without the
  field (the value is sent as null), which is equality of the optional texts. No property
  stated below depends on which patient this filter selects.
\<close>

definition contactMatches :: "string option \<Rightarrow> string option \<Rightarrow> patient \<Rightarrow> bool" where
  "contactMatches email phone p = (p_email p = email \<or> p_phone p = phone)"

fun updateFirst :: "('a \<Rightarrow> bool) \<Rightarrow> ('a \<Rightarrow> 'a) \<Rightarrow> 'a list \<Rightarrow> 'a list" where
  "updateFirst P f [] = []"
| "updateFirst P f (x # xs) = (if P x then f x # xs else x # updateFirst P f xs)"

text \<open>
  The patient identifier is unique in its collection: saving a new document under an
  identifier already stored throws.
\<close>

definition upsertPatient ::
  "env \<Rightarrow> patient list \<Rightarrow> book_request \<Rightarrow> string + (patient \<times> patient list)"
where
  "upsertPatient e ps req =
     (case find (contactMatches (b_patientEmail req) (b_patientPhone req)) ps of
        None \<Rightarrow>
          (let patient' = \<lparr> p_patientId = ''P-'' @ newPatientId e, p_name = b_patientName req,
                             p_email = b_patientEmail req, p_phone = b_patientPhone req \<rparr>
           in if list_ex (\<lambda>p. p_patientId p = p_patientId patient') ps
              then Inl ''E11000 duplicate key error''
              else Inr (patient', ps @ [patient']))
      | Some found \<Rightarrow>
          (let change = (\<lambda>p. p\<lparr> p_name := b_patientName req,
                               p_email := (if truthy (b_patientEmail req) then b_patientEmail req
                                           else p_email p),
                               p_phone := (if truthy (b_patientPhone req) then b_patientPhone req
                                           else p_phone p) \<rparr>)
           in Inr (change found,
                   updateFirst (contactMatches (b_patientEmail req) (b_patientPhone req)) change ps)))"

subsection \<open>Reading the chosen slot\<close>

text \<open>
  \<^verbatim>\<open>timeSlot.match(/(\d{2}):(\d{2})\s*(AM|PM)/i)\<close>: the leftmost place of the text where
  two digits, a colon, two digits, any blanks and AM or PM (in either case) stand; the
  three groups of the match. Texts are ASCII here, so the blanks are the six ASCII ones.
\<close>

definition isSpace :: "char \<Rightarrow> bool" where
  "isSpace c = (c \<in> set [CHR '' '', CHR 0x09, CHR 0x0A, CHR 0x0B, CHR 0x0C, CHR 0x0D])"

text \<open>\<^verbatim>\<open>toUpperCase\<close> on the letters the third group can hold.\<close>

definition upcase :: "char \<Rightarrow> char" where
  "upcase c = (if c = CHR ''a'' then CHR ''A'' else if c = CHR ''p'' then CHR ''P''
               else if c = CHR ''m'' then CHR ''M'' else c)"

definition periodHere :: "string \<Rightarrow> string option" where
  "periodHere s =
     (case s of
        a # b # _ \<Rightarrow>
          if (upcase a = CHR ''A'' \<or> upcase a = CHR ''P'') \<and> upcase b = CHR ''M''
          then Some [a, b] else None
      | _ \<Rightarrow> None)"

definition matchHere :: "string \<Rightarrow> (string \<times> string \<times> string) option" where
  "matchHere s =
     (if length s \<ge> 5 \<and> list_all isDigit (take 2 s) \<and> take 1 (drop 2 s) = '':''
         \<and> list_all isDigit (take 2 (drop 3 s))
      then map_option (\<lambda>per. (take 2 s, take 2 (drop 3 s), per))
             (periodHere (dropWhile isSpace (drop 5 s)))
      else None)"

fun timeMatch :: "string \<Rightarrow> (string \<times> string \<times> string) option" where
  "timeMatch [] = None"
| "timeMatch (c # cs) =
     (case matchHere (c # cs) of Some m \<Rightarrow> Some m | None \<Rightarrow> timeMatch cs)"

text \<open>
  From the match to the two ISO texts: the hour in 24-hour form, the minute text as
  matched, and the end taken as the next half hour.
\<close>

definition parseTimeSlot :: "string \<Rightarrow> string \<Rightarrow> (string \<times> string) option" where
  "parseTimeSlot date' timeSlot' =
     (case timeMatch timeSlot' of
        None \<Rightarrow> None
      | Some (hh, minute, per) \<Rightarrow>
          (let hour0 = int (digitsValue hh);
               period = map upcase per;
               hour1 = (if period = ''PM'' \<and> hour0 < 12 then hour0 + 12 else hour0);
               hour = (if period = ''AM'' \<and> hour1 = 12 then 0 else hour1);
               startTime' = padStart2 (toString hour) @ '':'' @ minute @ '':00'';
               endHour = hour + (if minute = ''30'' then 1 else 0);
               endMinute = (if minute = ''30'' then ''00'' else ''30'');
               endTime' = padStart2 (toString endHour) @ '':'' @ endMinute @ '':00''
           in Some (date' @ ''T'' @ startTime' @ ''+05:30'', date' @ ''T'' @ endTime' @ ''+05:30'')))"

subsection \<open>The conflict query and the handler\<close>

text \<open>
  The filter of \<^verbatim>\<open>Appointment.findOne\<close>: same doctor, not cancelled,
  \<^verbatim>\<open>startDateTime < end\<close> and \<^verbatim>\<open>endDateTime > start\<close>.
\<close>

definition conflictsWith :: "string \<Rightarrow> instant \<Rightarrow> instant \<Rightarrow> appointment \<Rightarrow> bool" where
  "conflictsWith did start' end' a =
     (doctorId a = did \<and> status a \<noteq> ''cancelled''
      \<and> num_lt (startDateTime a) end' \<and> num_gt (endDateTime a) start')"

text \<open>
  \<^verbatim>\<open>sendConfirmationEmail\<close>: skipped without a recipient or without a configured host;
  otherwise the transport's answer, a thrown error being passed on.
\<close>

definition sendConfirmationEmail :: "env \<Rightarrow> string option \<Rightarrow> string + email_status" where
  "sendConfirmationEmail e toEmail =
     (if \<not> truthy toEmail then Inr (MailSkipped ''No recipient email'')
      else if \<not> smtpHost e then Inr (MailSkipped ''SMTP not configured'')
      else (case transportResult e of Inl msg \<Rightarrow> Inl msg | Inr messageId \<Rightarrow> Inr (MailSent messageId)))"

text \<open>
  Saving the appointment validates the required texts of the schema (of those the handler
  can leave empty: doctor name, specialty and patient email) and the uniqueness of the
  identifier; either failure throws.
\<close>

definition appointmentSaveError :: "appointment list \<Rightarrow> appointment \<Rightarrow> string option" where
  "appointmentSaveError stored a =
     (if doctorName a = [] \<or> doctorSpecialty a = [] \<or> \<not> truthy (patientEmail a)
      then Some ''Appointment validation failed''
      else if list_ex (\<lambda>b. appointmentId b = appointmentId a) stored
      then Some ''E11000 duplicate key error''
      else None)"

text \<open>
  The handler, cut in three at the places where its work changes: \<open>bookAppointment\<close>
  validates the body and finds the doctor and the patient, \<open>bookSlot\<close> reads the slot and
  runs the conflict query, \<open>finishBooking\<close> creates the calendar event, saves the
  appointment and sends the mail. Each early \<^verbatim>\<open>return res.status(...)\<close> is a branch; an
  error thrown inside the \<^verbatim>\<open>try\<close> ends in the status 500 of its \<^verbatim>\<open>catch\<close>. A date that
  is not one makes the conflict query throw (the filter value cannot be cast to a date).
\<close>

definition googleEventOf :: "env \<Rightarrow> calendar_event" where
  "googleEventOf e =
     (case createEventResult e of
        Inl msg \<Rightarrow> \<lparr> eventId = ''manual-'' @ toString (nowMs e), htmlLink = None \<rparr>
      | Inr ev \<Rightarrow> ev)"

definition newAppointment ::
  "env \<Rightarrow> book_request \<Rightarrow> doctor \<Rightarrow> patient \<Rightarrow> calendar_event \<Rightarrow> int \<Rightarrow> int \<Rightarrow> appointment"
where
  "newAppointment e req doctor' patient' googleEvent start' end' =
     \<lparr> appointmentId = ''A-'' @ newAppointmentId e,
       doctorId = d_doctorId doctor',
       doctorName = orElse (b_doctorName req) (d_name doctor'),
       doctorSpecialty = orElse (b_doctorSpecialty req) (d_specialty doctor'),
       patientId = p_patientId patient',
       patientName = textOf (b_patientName req),
       patientPhone = b_patientPhone req,
       patientEmail = b_patientEmail req,
       date = textOf (b_date req),
       timeSlot = textOf (b_timeSlot req),
       startDateTime = Some start',
       endDateTime = Some end',
       googleEventId = eventId googleEvent,
       status = ''confirmed'',
       paymentStatus = ''pending'' \<rparr>"

definition finishBooking ::
  "env \<Rightarrow> server_state \<Rightarrow> call list \<Rightarrow> book_request \<Rightarrow> doctor \<Rightarrow> patient \<Rightarrow> string \<Rightarrow> string
     \<Rightarrow> int \<Rightarrow> int \<Rightarrow> reply \<times> server_state \<times> call list"
where
  "finishBooking e st1 calls1 req doctor' patient' startDateTimeISO endDateTimeISO start' end' =
     (let googleEvent = googleEventOf e;
          appointment' = newAppointment e req doctor' patient' googleEvent start' end';
          calls2 = calls1 @ [CreateEvent startDateTimeISO endDateTimeISO]
      in case appointmentSaveError (appointments st1) appointment' of
           Some msg \<Rightarrow> (errorReply 500 msg, st1, calls2)
         | None \<Rightarrow>
             (let st2 = st1\<lparr> appointments := appointments st1 @ [appointment'] \<rparr>;
                  calls3 = calls2 @ [AppointmentSave (appointmentId appointment')]
              in if truthy (p_email patient')
                 then (okReply (BookedBody appointment' patient'
                         (Some (case sendConfirmationEmail e (p_email patient') of
                                  Inl msg \<Rightarrow> MailError msg
                                | Inr es \<Rightarrow> es))
                         (htmlLink googleEvent)),
                       st2, calls3 @ [SendConfirmationEmail (textOf (p_email patient'))])
                 else (okReply (BookedBody appointment' patient' None (htmlLink googleEvent)),
                       st2, calls3)))"

definition bookSlot ::
  "(string \<Rightarrow> int option) \<Rightarrow> env \<Rightarrow> server_state \<Rightarrow> call list \<Rightarrow> book_request \<Rightarrow> doctor
     \<Rightarrow> patient \<Rightarrow> reply \<times> server_state \<times> call list"
where
  "bookSlot cal e st1 calls1 req doctor' patient' =
     (case parseTimeSlot (textOf (b_date req)) (textOf (b_timeSlot req)) of
        None \<Rightarrow> (errorReply 400 ''Invalid time slot format'', st1, calls1)
      | Some (startDateTimeISO, endDateTimeISO) \<Rightarrow>
          (case (dateGetTime cal startDateTimeISO, dateGetTime cal endDateTimeISO) of
             (Some start', Some end') \<Rightarrow>
               (case find (conflictsWith (d_doctorId doctor') (Some start') (Some end'))
                       (appointments st1) of
                  Some conflictingAppointment \<Rightarrow>
                    (errorReply 409 ''This time slot is no longer available'', st1,
                     calls1 @ [AppointmentFindOne (d_doctorId doctor')])
                | None \<Rightarrow>
                    finishBooking e st1 (calls1 @ [AppointmentFindOne (d_doctorId doctor')]) req
                      doctor' patient' startDateTimeISO endDateTimeISO start' end')
           | _ \<Rightarrow> (errorReply 500 ''Cast to date failed'', st1, calls1)))"

definition bookAppointment ::
  "(string \<Rightarrow> int option) \<Rightarrow> env \<Rightarrow> server_state \<Rightarrow> book_request
     \<Rightarrow> reply \<times> server_state \<times> call list"
where
  "bookAppointment cal e st req =
     (if \<not> truthy (b_doctorId req) \<or> \<not> truthy (b_patientName req)
         \<or> \<not> truthy (b_date req) \<or> \<not> truthy (b_timeSlot req)
      then (errorReply 400 ''Missing required fields'', st, [])
      else if \<not> truthy (b_patientEmail req) \<and> \<not> truthy (b_patientPhone req)
      then (errorReply 400 ''Either email or phone is required'', st, [])
      else
        (case find (\<lambda>d. d_doctorId d = textOf (b_doctorId req)) (doctors st) of
           None \<Rightarrow>
             (errorReply 404 ''Doctor not found'', st, [DoctorFindOne (textOf (b_doctorId req))])
         | Some doctor' \<Rightarrow>
             (case upsertPatient e (patients st) req of
                Inl msg \<Rightarrow>
                  (errorReply 500 msg, st,
                   [DoctorFindOne (textOf (b_doctorId req)), PatientFindOne])
              | Inr (patient', ps) \<Rightarrow>
                  bookSlot cal e (st\<lparr> patients := ps \<rparr>)
                    [DoctorFindOne (textOf (b_doctorId req)), PatientFindOne,
                     PatientSave (p_patientId patient')]
                    req doctor' patient')))"

text \<open>
  The label format of the specification, \<^verbatim>\<open>HH:MM AM/PM - HH:MM AM/PM\<close>, for comparing
  with what the handler accepts.
\<close>

definition clockLabel :: "string \<Rightarrow> bool" where
  "clockLabel s =
     (length s = 8 \<and> list_all isDigit (take 2 s) \<and> take 1 (drop 2 s) = '':''
      \<and> list_all isDigit (take 2 (drop 3 s)) \<and> (drop 5 s = '' AM'' \<or> drop 5 s = '' PM''))"

definition labelFormat :: "string \<Rightarrow> bool" where
  "labelFormat s = (length s = 19 \<and> clockLabel (take 8 s) \<and> take 3 (drop 8 s) = '' - ''
                    \<and> clockLabel (drop 11 s))"

section \<open>Availability: \<^verbatim>\<open>POST /doctors/:doctorId/availability\<close>\<close>

text \<open>\<^verbatim>\<open>/^\d{4}-\d{2}-\d{2}$/.test(date)\<close>.\<close>

definition dateFormatOk :: "string \<Rightarrow> bool" where
  "dateFormatOk s =
     (length s = 10 \<and> list_all isDigit (take 4 s) \<and> take 1 (drop 4 s) = ''-''
      \<and> list_all isDigit (take 2 (drop 5 s)) \<and> take 1 (drop 7 s) = ''-''
      \<and> list_all isDigit (drop 8 s))"

text \<open>
  The parameter \<open>weekdayOf\<close> is the lower-case weekday name that
  \<^verbatim>\<open>toLocaleDateString('en-US', { weekday: 'long' })\<close> gives for the date. The handler
  changes no collection; its result is the response and the calls it made.
\<close>

definition doctorAvailability ::
  "(string \<Rightarrow> int option) \<Rightarrow> (string \<Rightarrow> string) \<Rightarrow> env \<Rightarrow> server_state \<Rightarrow> string
     \<Rightarrow> string option \<Rightarrow> reply \<times> call list"
where
  "doctorAvailability cal weekdayOf e st doctorIdParam date' =
     (if \<not> truthy date' then (errorReply 400 ''Date is required (format: YYYY-MM-DD)'', [])
      else if \<not> dateFormatOk (textOf date')
      then (errorReply 400 ''Invalid date format. Use YYYY-MM-DD (e.g., 2025-12-02)'', [])
      else
        (case find (\<lambda>d. d_doctorId d = doctorIdParam) (doctors st) of
           None \<Rightarrow> (errorReply 404 ''Doctor not found'', [DoctorFindOne doctorIdParam])
         | Some doctor' \<Rightarrow>
             (let dayOfWeek = weekdayOf (textOf date') in
              case d_availability doctor' of
                None \<Rightarrow>
                  (errorReply 400 ''Doctor availability schedule not configured'',
                   [DoctorFindOne doctorIdParam])
              | Some availability \<Rightarrow>
                  (case availability dayOfWeek of
                     None \<Rightarrow>
                       (okReply (SlotsBody [] (Some (''No schedule configured for '' @ dayOfWeek))),
                        [DoctorFindOne doctorIdParam])
                   | Some dayAvailability \<Rightarrow>
                       if \<not> available dayAvailability
                       then (okReply (SlotsBody [] (Some ''Doctor not available on this day'')),
                             [DoctorFindOne doctorIdParam])
                       else if \<not> truthy (availStart dayAvailability)
                               \<or> \<not> truthy (availEnd dayAvailability)
                       then (errorReply 400 ''Doctor's working hours not properly configured'',
                             [DoctorFindOne doctorIdParam])
                       else
                         (let timeMin = textOf date' @ ''T00:00:00+05:30'';
                              timeMax = textOf date' @ ''T23:59:59+05:30'';
                              busyPeriods =
                                (if truthy (d_calendarId doctor')
                                 then (case freeBusyResult e of
                                         Inl msg \<Rightarrow> []
                                       | Inr busy \<Rightarrow> (case busy of None \<Rightarrow> [] | Some b \<Rightarrow> b))
                                 else []);
                              calendarCalls =
                                (if truthy (d_calendarId doctor')
                                 then [GetFreeBusy (textOf (d_calendarId doctor')) timeMin timeMax]
                                 else []);
                              existingAppointments =
                                filter (\<lambda>a. doctorId a = d_doctorId doctor' \<and> date a = textOf date'
                                             \<and> status a \<noteq> ''cancelled'')
                                  (appointments st);
                              availableSlots =
                                generateAvailableSlots cal (textOf date')
                                  (textOf (availStart dayAvailability))
                                  (textOf (availEnd dayAvailability))
                                  busyPeriods existingAppointments
                          in (okReply (SlotsBody availableSlots None),
                              [DoctorFindOne doctorIdParam] @ calendarCalls
                                @ [AppointmentFind (d_doctorId doctor') (textOf date')]))))))"

section \<open>Registration: \<^verbatim>\<open>POST /patients/register\<close>\<close>

record register_request =
  g_name :: "string option"
  g_email :: "string option"
  g_phone :: "string option"



subsection \<open>The earlier endpoint: \<^verbatim>\<open>POST /patients\<close>\<close>

text \<open>
  The older route creates the patient or updates the first one found by email or phone:
  \<^verbatim>\<open>patient.name = name || patient.name\<close> and \<^verbatim>\<open>patient.phone = phone || patient.phone\<close>;
  the email of a patient found is left as it is. The route has no \<^verbatim>\<open>try\<close>: an error thrown
  by the save leaves the handler (\<open>Inl\<close>). Its filter is the one of the booking handler.
\<close>

definition orField :: "string option \<Rightarrow> string option \<Rightarrow> string option" where
  "orField a b = (if truthy a then a else b)"

definition createPatient ::
  "env \<Rightarrow> server_state \<Rightarrow> register_request \<Rightarrow> (string + reply) \<times> server_state"
where
  "createPatient e st req =
     (if \<not> truthy (g_email req) \<and> \<not> truthy (g_phone req)
      then (Inr (errorReply 400 ''email or phone required''), st)
      else
        (case find (contactMatches (g_email req) (g_phone req)) (patients st) of
           None \<Rightarrow>
             (let patient' = \<lparr> p_patientId = ''P-'' @ newPatientId e, p_name = g_name req,
                                p_email = g_email req, p_phone = g_phone req \<rparr>
              in if list_ex (\<lambda>p. p_patientId p = p_patientId patient') (patients st)
                 then (Inl ''E11000 duplicate key error'', st)
                 else (Inr (okReply (PatientBody patient')),
                       st\<lparr> patients := patients st @ [patient'] \<rparr>))
         | Some found \<Rightarrow>
             (let change = (\<lambda>p. p\<lparr> p_name := orField (g_name req) (p_name p),
                                  p_phone := orField (g_phone req) (p_phone p) \<rparr>)
              in (Inr (okReply (PatientBody (change found))),
                  st\<lparr> patients :=
                         updateFirst (contactMatches (g_email req) (g_phone req)) change
                           (patients st) \<rparr>))))"

section \<open>Cancelling\<close>

text \<open>
  \<^verbatim>\<open>POST /appointments/:appointmentId/cancel\<close> sets the status of the first appointment with
  the identifier to cancelled. The other cancellation of the source removes the document
  (\<^verbatim>\<open>Appointment.deleteOne\<close>).
\<close>

definition cancelAppointment :: "server_state \<Rightarrow> string \<Rightarrow> reply \<times> server_state" where
  "cancelAppointment st aid =
     (case find (\<lambda>a. appointmentId a = aid) (appointments st) of
        None \<Rightarrow> (errorReply 404 ''Appointment not found'', st)
      | Some appointment' \<Rightarrow>
          (okReply (CancelledBody (appointmentId appointment')),
           st\<lparr> appointments :=
                  updateFirst (\<lambda>a. appointmentId a = aid) (\<lambda>a. a\<lparr> status := ''cancelled'' \<rparr>)
                    (appointments st) \<rparr>))"

fun removeFirst :: "('a \<Rightarrow> bool) \<Rightarrow> 'a list \<Rightarrow> 'a list" where
  "removeFirst P [] = []"
| "removeFirst P (x # xs) = (if P x then xs else x # removeFirst P xs)"

definition deleteAppointment :: "server_state \<Rightarrow> string \<Rightarrow> reply \<times> server_state" where
  "deleteAppointment st aid =
     (case find (\<lambda>a. appointmentId a = aid) (appointments st) of
        None \<Rightarrow> (errorReply 404 ''Appointment not found'', st)
      | Some appointment' \<Rightarrow>
          (okReply (CancelledBody aid),
           st\<lparr> appointments := removeFirst (\<lambda>a. appointmentId a = aid) (appointments st) \<rparr>))"

section \<open>Sequences of bookings and cancellations\<close>

datatype operation =
  Book env book_request
| Cancel string
| Delete string

fun perform :: "(string \<Rightarrow> int option) \<Rightarrow> server_state \<Rightarrow> operation \<Rightarrow> reply \<times> server_state" where
  "perform cal st (Book e req) = (case bookAppointment cal e st req of (r, st', calls) \<Rightarrow> (r, st'))"
| "perform cal st (Cancel aid) = cancelAppointment st aid"
| "perform cal st (Delete aid) = deleteAppointment st aid"

fun performAll :: "(string \<Rightarrow> int option) \<Rightarrow> server_state \<Rightarrow> operation list \<Rightarrow> reply list \<times> server_state" where
  "performAll cal st [] = ([], st)"
| "performAll cal st (op # ops) =
     (case perform cal st op of
        (r, st') \<Rightarrow> (case performAll cal st' ops of (rs, final) \<Rightarrow> (r # rs, final)))"

text \<open>
  The invariant of the appointment collection: no two stored appointments of one doctor,
  both not cancelled, overlap.
\<close>

definition clash :: "appointment \<Rightarrow> appointment \<Rightarrow> bool" where
  "clash a b =
     (doctorId a = doctorId b \<and> status a \<noteq> ''cancelled'' \<and> status b \<noteq> ''cancelled''
      \<and> overlaps (startDateTime a) (endDateTime a) (startDateTime b) (endDateTime b))"

fun noDoubleBooking :: "appointment list \<Rightarrow> bool" where
  "noDoubleBooking [] = True"
| "noDoubleBooking (a # rest) = (\<not> list_ex (clash a) rest \<and> noDoubleBooking rest)"

section \<open>One-time passcodes: \<^verbatim>\<open>otpService.js\<close>\<close>

text \<open>
  \<^verbatim>\<open>otpStore\<close> is a \<^verbatim>\<open>Map\<close> from the contact address to the stored entry. The clock
  \<^verbatim>\<open>Date.now()\<close> is the argument \<open>now\<close> of each operation, and the submitted code is the
  text \<^verbatim>\<open>otp.toString()\<close>.
\<close>

record otp_entry =
  otp :: string
  expiryTime :: int
  attempts :: nat

type_synonym otp_store = "string \<rightharpoonup> otp_entry"

definition OTP_EXPIRY_TIME :: int where
  "OTP_EXPIRY_TIME = 5 * 60 * 1000"

definition storeOTP :: "int \<Rightarrow> otp_store \<Rightarrow> string \<Rightarrow> string \<Rightarrow> otp_store" where
  "storeOTP now otpStore email code =
     otpStore(email \<mapsto> \<lparr> otp = code, expiryTime = now + OTP_EXPIRY_TIME, attempts = 0 \<rparr>)"

text \<open>The callback that \<^verbatim>\<open>storeOTP\<close> hands to \<^verbatim>\<open>setTimeout\<close>.\<close>

definition otpCleanup :: "otp_store \<Rightarrow> string \<Rightarrow> otp_store" where
  "otpCleanup otpStore email = (if otpStore email \<noteq> None then otpStore(email := None) else otpStore)"

record verify_result =
  valid :: bool
  message :: string
  remainingAttempts :: "int option"

definition verifyOTP :: "int \<Rightarrow> otp_store \<Rightarrow> string \<Rightarrow> string \<Rightarrow> verify_result \<times> otp_store" where
  "verifyOTP now otpStore email code =
     (case otpStore email of
        None \<Rightarrow>
          (\<lparr> valid = False, message = ''OTP not found or expired. Please request a new OTP.'',
             remainingAttempts = Some 0 \<rparr>, otpStore)
      | Some storedData \<Rightarrow>
          if now > expiryTime storedData then
            (\<lparr> valid = False, message = ''OTP has expired. Please request a new OTP.'',
               remainingAttempts = Some 0 \<rparr>, otpStore(email := None))
          else if attempts storedData \<ge> 5 then
            (\<lparr> valid = False,
               message = ''Maximum OTP verification attempts exceeded. Please request a new OTP.'',
               remainingAttempts = Some 0 \<rparr>, otpStore(email := None))
          else if otp storedData \<noteq> code then
            (\<lparr> valid = False, message = ''Invalid OTP'',
               remainingAttempts = Some (5 - int (attempts storedData + 1)) \<rparr>,
             otpStore(email \<mapsto> storedData\<lparr> attempts := attempts storedData + 1 \<rparr>))
          else
            (\<lparr> valid = True, message = ''OTP verified successfully'',
               remainingAttempts = None \<rparr>, otpStore(email := None)))"

text \<open>
  What can happen to the store: a code is issued, a code is submitted, or a pending
  clean-up timer fires. \<open>otpRun\<close> performs the events in order and returns the
  results of the submissions, each with its address and its time.
\<close>

datatype otp_event =
  Issue int string string
| Submit int string string
| TimerFires string

fun otpRun :: "otp_store \<Rightarrow> otp_event list \<Rightarrow> (string \<times> int \<times> verify_result) list \<times> otp_store" where
  "otpRun otpStore [] = ([], otpStore)"
| "otpRun otpStore (Issue now email code # evs) = otpRun (storeOTP now otpStore email code) evs"
| "otpRun otpStore (TimerFires email # evs) = otpRun (otpCleanup otpStore email) evs"
| "otpRun otpStore (Submit now email code # evs) =
     (let (r, otpStore') = verifyOTP now otpStore email code;
          (rs, final) = otpRun otpStore' evs
      in ((email, now, r) # rs, final))"

fun reissues :: "string \<Rightarrow> otp_event \<Rightarrow> bool" where
  "reissues email (Issue now email' code) = (email' = email)"
| "reissues email _ = False"

definition accepted :: "string \<Rightarrow> (string \<times> int \<times> verify_result) list \<Rightarrow> (string \<times> int \<times> verify_result) list" where
  "accepted email results = filter (\<lambda>(e, t, r). e = email \<and> valid r) results"

definition rejected :: "string \<Rightarrow> (string \<times> int \<times> verify_result) list \<Rightarrow> (string \<times> int \<times> verify_result) list" where
  "rejected email results = filter (\<lambda>(e, t, r). e = email \<and> \<not> valid r) results"


text \<open>
  The state of one issued code while no new code is issued for its address (\<open>tracks\<close>),
  and the check of a list of results against one issued code: \<open>k\<close> rejections so far
  (\<open>usedOnce\<close>).
\<close>

definition tracks :: "string \<Rightarrow> string \<Rightarrow> int \<Rightarrow> nat \<Rightarrow> otp_store \<Rightarrow> bool" where
  "tracks email code expiry k st =
     (case st email of None \<Rightarrow> True
      | Some e \<Rightarrow> otp e = code \<and> expiryTime e = expiry \<and> attempts e = k)"

fun usedOnce :: "string \<Rightarrow> int \<Rightarrow> nat \<Rightarrow> (string \<times> int \<times> verify_result) list \<Rightarrow> bool" where
  "usedOnce email expiry k [] = True"
| "usedOnce email expiry k ((e, t, r) # rs) =
     (if e = email then
        (if valid r then t \<le> expiry \<and> k < 5 \<and> accepted email rs = []
         else usedOnce email expiry (Suc k) rs)
      else usedOnce email expiry k rs)"

section \<open>Stating the outcome of a booking\<close>

text \<open>
  A booking request either is refused (no appointment added, no success status, no mail
  sent) or is booked (one confirmed appointment appended, success status, mail attempted
  exactly when the patient has an email). \<open>admitted\<close> says that a request reaches the
  reading of its slot.
\<close>

definition bookedOutcome ::
  "env \<Rightarrow> server_state \<Rightarrow> string \<Rightarrow> int \<Rightarrow> int \<Rightarrow> reply \<times> server_state \<times> call list \<Rightarrow> bool"
where
  "bookedOutcome e st1 did start' end' out =
     (case out of (r, st', calls) \<Rightarrow>
        (\<exists>a p link.
           st' = st1\<lparr> appointments := appointments st1 @ [a] \<rparr>
           \<and> status a = ''confirmed'' \<and> doctorId a = did
           \<and> startDateTime a = Some start' \<and> endDateTime a = Some end'
           \<and> r = okReply (BookedBody a p
                   (if truthy (p_email p)
                    then Some (case sendConfirmationEmail e (p_email p) of
                                 Inl msg \<Rightarrow> MailError msg | Inr es \<Rightarrow> es)
                    else None) link)
           \<and> ((\<exists>to. SendConfirmationEmail to \<in> set calls) = truthy (p_email p))))"

definition refusedOutcome :: "server_state \<Rightarrow> reply \<times> server_state \<times> call list \<Rightarrow> bool" where
  "refusedOutcome st1 out =
     (case out of (r, st', calls) \<Rightarrow>
        appointments st' = appointments st1 \<and> httpStatus r \<noteq> 200
        \<and> (\<forall>to. SendConfirmationEmail to \<notin> set calls))"

definition admitted :: "env \<Rightarrow> server_state \<Rightarrow> book_request \<Rightarrow> bool" where
  "admitted e st req =
     (truthy (b_doctorId req) \<and> truthy (b_patientName req) \<and> truthy (b_date req)
      \<and> truthy (b_timeSlot req) \<and> (truthy (b_patientEmail req) \<or> truthy (b_patientPhone req))
      \<and> list_ex (\<lambda>d. d_doctorId d = textOf (b_doctorId req)) (doctors st)
      \<and> (case upsertPatient e (patients st) req of Inl msg \<Rightarrow> False | Inr pp \<Rightarrow> True))"

section \<open>Example data\<close>

definition exampleCalendar :: "string \<Rightarrow> int option" where
  "exampleCalendar d = (if d = ''2025-01-06'' then Some 1736121600000 else None)"

definition exampleTemplate :: "string \<Rightarrow> day_availability option" where
  "exampleTemplate day =
     (if day = ''sunday'' then Some \<lparr> available = False, availStart = None, availEnd = None \<rparr>
      else Some \<lparr> available = True, availStart = Some ''09:00'', availEnd = Some ''11:00'' \<rparr>)"

definition exampleDoctor :: doctor where
  "exampleDoctor =
     \<lparr> d_doctorId = ''D-1'', d_name = ''Dr A'', d_specialty = ''Cardiology'', d_email = None,
       d_calendarId = Some ''cal-1'', d_availability = Some exampleTemplate \<rparr>"

definition exampleState :: server_state where
  "exampleState = \<lparr> doctors = [exampleDoctor], patients = [], appointments = [] \<rparr>"

definition exampleEnv :: "string \<Rightarrow> env" where
  "exampleEnv i =
     \<lparr> newPatientId = i, newAppointmentId = i, nowMs = 1736000000000,
       createEventResult = Inl ''invalid_grant'', freeBusyResult = Inl ''invalid_grant'',
       smtpHost = True, transportResult = Inl ''connect ECONNREFUSED'' \<rparr>"

definition exampleRequest :: "string \<Rightarrow> book_request" where
  "exampleRequest label =
     \<lparr> b_doctorId = Some ''D-1'', b_doctorName = None, b_doctorSpecialty = None,
       b_patientName = Some ''Asha'', b_patientEmail = Some ''asha@example.org'',
       b_patientPhone = None, b_date = Some ''2025-01-06'', b_timeSlot = Some label \<rparr>"

text \<open>The patient and the appointment that the example request leaves in the collections.\<close>

definition examplePatient :: patient where
  "examplePatient =
     \<lparr> p_patientId = ''P-1'', p_name = Some ''Asha'', p_email = Some ''asha@example.org'',
       p_phone = None \<rparr>"

definition exampleAppointment :: "string \<Rightarrow> string \<Rightarrow> int \<Rightarrow> int \<Rightarrow> appointment" where
  "exampleAppointment i label start' end' =
     \<lparr> appointmentId = ''A-'' @ i, doctorId = ''D-1'', doctorName = ''Dr A'',
       doctorSpecialty = ''Cardiology'', patientId = ''P-1'', patientName = ''Asha'',
       patientPhone = None, patientEmail = Some ''asha@example.org'', date = ''2025-01-06'',
       timeSlot = label, startDateTime = Some start', endDateTime = Some end',
       googleEventId = ''manual-1736000000000'', status = ''confirmed'',
       paymentStatus = ''pending'' \<rparr>"

definition exampleBooked :: "appointment list \<Rightarrow> server_state" where
  "exampleBooked as = \<lparr> doctors = [exampleDoctor], patients = [examplePatient], appointments = as \<rparr>"

definition exampleWeekday :: "string \<Rightarrow> string" where
  "exampleWeekday d = (if d = ''2025-01-05'' then ''sunday'' else ''monday'')"


section \<open>Verification\<close>

subsection \<open>Lemmas on the conflict check\<close>


lemma busyLoop_iff:
  "busyLoop s e bs = (\<exists>b \<in> set bs. overlaps s e (busyStart b) (busyEnd b))"
  by (induction bs) (auto simp: overlaps_def)

lemma apptLoop_iff:
  "apptLoop s e as = (\<exists>a \<in> set as. overlaps s e (startDateTime a) (endDateTime a))"
  by (induction as) (auto simp: overlaps_def)

lemma overlaps_commute: "overlaps aS aE bS bE = overlaps bS bE aS aE"
  by (auto simp: overlaps_def num_gt_def)

lemma overlaps_touching: "\<not> overlaps aS aE aE bE"
  by (cases aE) (auto simp: overlaps_def num_gt_def)

subsection \<open>The loop of the generator\<close>

lemma slotLoop_unfold:
  "slotLoop cal date' busy appts e slots m =
     (if m + 30 \<le> e
      then slotLoop cal date' busy appts e
             (if slotFree cal busy appts (slotAt date' m) then slots @ [slotAt date' m] else slots)
             (m + 30)
      else slots)"
  by (subst slotLoop.simps) (simp add: Let_def slotFree_def slotAt_def hhmm_def)

lemma slotStarts_step:
  "m + 30 \<le> e \<Longrightarrow> slotStarts m e = m # slotStarts (m + 30) e"
proof -
  assume h: "m + 30 \<le> e"
  define n where "n = nat ((e - (m + 30)) div 30)"
  have d: "(e - m) div 30 = (e - (m + 30)) div 30 + 1"
    by linarith
  have nn: "0 \<le> (e - (m + 30)) div 30" using h by simp
  have "nat ((e - m) div 30) = Suc n"
    unfolding n_def d using nn by linarith
  then have "slotStarts m e = map (\<lambda>k. m + 30 * int k) [0 ..< Suc n]"
    by (simp add: slotStarts_def)
  also have "\<dots> = m # map (\<lambda>k. m + 30 * int k) (map Suc [0 ..< n])"
    by (simp add: upt_conv_Cons map_Suc_upt del: upt_Suc)
  also have "map (\<lambda>k. m + 30 * int k) (map Suc [0 ..< n]) = slotStarts (m + 30) e"
    by (simp add: slotStarts_def n_def algebra_simps)
  finally show ?thesis .
qed

lemma slotStarts_stop: "\<not> m + 30 \<le> e \<Longrightarrow> slotStarts m e = []"
proof -
  assume "\<not> m + 30 \<le> e"
  then have "(e - m) div 30 \<le> 0" by linarith
  then show ?thesis by (simp add: slotStarts_def)
qed

lemma slotLoop_filter:
  "slotLoop cal date' busy appts e slots m =
     slots @ filter (slotFree cal busy appts) (map (slotAt date') (slotStarts m e))"
proof (induction "nat (e - m)" arbitrary: slots m rule: less_induct)
  case less
  show ?case
  proof (cases "m + 30 \<le> e")
    case True
    then have smaller: "nat (e - (m + 30)) < nat (e - m)" by linarith
    show ?thesis
      by (subst slotLoop_unfold) (simp add: True less [OF smaller] slotStarts_step)
  next
    case False
    then show ?thesis
      by (subst slotLoop_unfold) (simp add: slotStarts_stop)
  qed
qed


lemma gen_filter:
  "generateAvailableSlots cal d st en busy appts =
     (case (hourMinute st, hourMinute en) of
        (Some (sh, sm), Some (eh, em)) \<Rightarrow>
          filter (slotFree cal busy appts)
            (map (slotAt d) (slotStarts (sh * 60 + sm) (eh * 60 + em)))
      | _ \<Rightarrow> [])"
  by (simp add: generateAvailableSlots_def slotLoop_filter split: option.splits prod.splits)

lemma slotFree_nothing: "slotFree cal [] [] s"
  by (simp add: slotFree_def isSlotConflicting_def)

lemma slotFree_iff:
  "slotFree cal busy appts s =
     ((\<forall>b \<in> set busy. \<not> overlaps (dateGetTime cal (startISO s)) (dateGetTime cal (endISO s))
                           (busyStart b) (busyEnd b)) \<and>
      (\<forall>a \<in> set appts. \<not> overlaps (dateGetTime cal (startISO s)) (dateGetTime cal (endISO s))
                           (startDateTime a) (endDateTime a)))"
  by (auto simp: slotFree_def isSlotConflicting_def Let_def busyLoop_iff apptLoop_iff)

lemma slotStarts_sorted: "sorted_wrt (<) (slotStarts a b)"
  by (simp add: slotStarts_def sorted_wrt_map sorted_wrt_upt [unfolded sorted_wrt_iff_nth_less] sorted_wrt_iff_nth_less)

subsection \<open>The slots of a working window\<close>

text \<open>
  Claim C1. With the working hours read as minute offsets \<open>dayStart\<close> and \<open>dayEnd\<close>, and
  nothing busy, the generator returns one slot for each of the offsets \<open>dayStart\<close>,
  \<open>dayStart + 30\<close>, ... for which \<open>current + 30 \<le> dayEnd\<close> holds, in this order; each
  slot ends where the next one starts; when \<open>dayStart < dayEnd\<close> the slots stop less than
  30 minutes before \<open>dayEnd\<close>; and when \<open>dayStart \<ge> dayEnd\<close> the result is empty, whatever
  is busy.
\<close>

theorem slots_tile_working_window:
  assumes "hourMinute startTime' = Some (startHour, startMinute)"
    and "hourMinute endTime' = Some (endHour, endMinute)"
    and "dayStart = startHour * 60 + startMinute"
    and "dayEnd = endHour * 60 + endMinute"
    and "n = nat ((dayEnd - dayStart) div 30)"
  shows "generateAvailableSlots cal date' startTime' endTime' [] [] =
           map (\<lambda>k. slotAt date' (dayStart + 30 * int k)) [0 ..< n]
         \<and> (\<forall>k. startTime (slotAt date' (dayStart + 30 * int k)) = hhmm (dayStart + 30 * int k)
               \<and> endTime (slotAt date' (dayStart + 30 * int k))
                   = startTime (slotAt date' (dayStart + 30 * int (Suc k))))
         \<and> (dayStart < dayEnd \<longrightarrow>
               dayStart + 30 * int n \<le> dayEnd \<and> dayEnd < dayStart + 30 * int n + 30)
         \<and> (dayEnd \<le> dayStart \<longrightarrow>
               generateAvailableSlots cal date' startTime' endTime' busyPeriods existingAppointments = [])"
proof -
  have all: "filter (slotFree cal [] []) xs = xs" for xs
    by (simp add: slotFree_nothing)
  have first: "generateAvailableSlots cal date' startTime' endTime' [] [] =
           map (\<lambda>k. slotAt date' (dayStart + 30 * int k)) [0 ..< n]"
    using assms by (simp add: gen_filter all slotStarts_def o_def)
  have second: "startTime (slotAt date' (dayStart + 30 * int k)) = hhmm (dayStart + 30 * int k)
               \<and> endTime (slotAt date' (dayStart + 30 * int k))
                   = startTime (slotAt date' (dayStart + 30 * int (Suc k)))" for k
    by (simp add: slotAt_def algebra_simps)
  have third: "dayStart + 30 * int n \<le> dayEnd \<and> dayEnd < dayStart + 30 * int n + 30"
    if "dayStart < dayEnd"
  proof -
    have "0 \<le> (dayEnd - dayStart) div 30" using that by simp
    then have "int n = (dayEnd - dayStart) div 30" using assms(5) by simp
    then show ?thesis by linarith
  qed
  have fourth: "generateAvailableSlots cal date' startTime' endTime' busyPeriods existingAppointments = []"
    if "dayEnd \<le> dayStart"
  proof -
    have "(dayEnd - dayStart) div 30 \<le> 0" using that by linarith
    then have "slotStarts dayStart dayEnd = []" by (simp add: slotStarts_def)
    then show ?thesis using assms by (simp add: gen_filter)
  qed
  show ?thesis using first second third fourth by blast
qed

lemma example_hours:
  "hourMinute ''09:00'' = Some (9, 0)" "hourMinute ''11:10'' = Some (11, 10)"
  by code_simp+

theorem slots_tile_working_window_witness:
  "map startTime (generateAvailableSlots (\<lambda>d. Some 0) ''2025-01-06'' ''09:00'' ''11:10'' [] [])
     = [''09:00'', ''09:30'', ''10:00'', ''10:30'']
   \<and> map endTime (generateAvailableSlots (\<lambda>d. Some 0) ''2025-01-06'' ''09:00'' ''11:10'' [] [])
     = [''09:30'', ''10:00'', ''10:30'', ''11:00'']
   \<and> (540::int) + 30 * 4 \<le> 670 \<and> (670::int) < 540 + 30 * 4 + 30"
proof -
  have n: "(4::nat) = nat ((670 - 540) div 30)" by simp
  have hh: "hhmm 540 = ''09:00''" "hhmm 570 = ''09:30''" "hhmm 600 = ''10:00''"
     "hhmm 630 = ''10:30''" "hhmm 660 = ''11:00''"
    by code_simp+
  have up: "[0 ..< 4] = [0, 1, 2, 3]" by code_simp
  note t = slots_tile_working_window [where dayStart = 540 and dayEnd = 670 and cal = "\<lambda>d. Some 0"
      and date' = "''2025-01-06''", OF example_hours(1) example_hours(2) _ _ n]
  show ?thesis using t by (simp add: up slotAt_def hh)
qed

text \<open>
  Claim C10. The generator's result is its candidate list (the result with nothing busy)
  filtered by the non-conflict check: every returned slot overlaps no supplied busy period
  and no supplied appointment, conflicting candidates are left out, and the slots come in
  increasing order of their start.
\<close>

theorem generated_slots_conflict_free:
  "generateAvailableSlots cal date' startTime' endTime' busyPeriods existingAppointments =
     filter (slotFree cal busyPeriods existingAppointments)
       (generateAvailableSlots cal date' startTime' endTime' [] [])
   \<and> (\<forall>s \<in> set (generateAvailableSlots cal date' startTime' endTime' busyPeriods existingAppointments).
         (\<forall>b \<in> set busyPeriods.
            \<not> overlaps (dateGetTime cal (startISO s)) (dateGetTime cal (endISO s))
                 (busyStart b) (busyEnd b)) \<and>
         (\<forall>a \<in> set existingAppointments.
            \<not> overlaps (dateGetTime cal (startISO s)) (dateGetTime cal (endISO s))
                 (startDateTime a) (endDateTime a)))
   \<and> (\<exists>ms. sorted_wrt (<) ms \<and>
         generateAvailableSlots cal date' startTime' endTime' busyPeriods existingAppointments
           = map (slotAt date') ms)"
proof -
  let ?free = "slotFree cal busyPeriods existingAppointments"
  have all: "filter (slotFree cal [] []) xs = xs" for xs
    by (simp add: slotFree_nothing)
  have a: "generateAvailableSlots cal date' startTime' endTime' busyPeriods existingAppointments =
     filter ?free (generateAvailableSlots cal date' startTime' endTime' [] [])"
    by (simp add: gen_filter all split: option.splits prod.splits)
  have b: "?free s"
    if "s \<in> set (generateAvailableSlots cal date' startTime' endTime' busyPeriods existingAppointments)"
    for s
    using that by (subst (asm) a) simp
  have c: "\<exists>ms. sorted_wrt (<) ms \<and>
         generateAvailableSlots cal date' startTime' endTime' busyPeriods existingAppointments
           = map (slotAt date') ms"
  proof (cases "hourMinute startTime'")
    case None
    then have "generateAvailableSlots cal date' startTime' endTime' busyPeriods existingAppointments
       = map (slotAt date') []" by (simp add: gen_filter)
    then show ?thesis using sorted_wrt.simps(1) by blast
  next
    case (Some p)
    show ?thesis
    proof (cases "hourMinute endTime'")
      case None
      then have "generateAvailableSlots cal date' startTime' endTime' busyPeriods existingAppointments
         = map (slotAt date') []" by (simp add: gen_filter split: option.splits prod.splits)
      then show ?thesis using sorted_wrt.simps(1) by blast
    next
      case (Some q)
      obtain sh sm eh em where pq: "p = (sh, sm)" "q = (eh, em)"
        by (cases p, cases q) auto
      let ?ms = "filter (\<lambda>m. ?free (slotAt date' m)) (slotStarts (sh * 60 + sm) (eh * 60 + em))"
      have "sorted_wrt (<) ?ms"
        by (rule sorted_wrt_filter) (rule slotStarts_sorted)
      moreover have "generateAvailableSlots cal date' startTime' endTime' busyPeriods existingAppointments
           = map (slotAt date') ?ms"
        using \<open>hourMinute startTime' = Some p\<close> Some pq
        by (simp add: gen_filter filter_map o_def)
      ultimately show ?thesis by blast
    qed
  qed
  show ?thesis using a b c by (simp add: slotFree_iff)
qed


theorem generated_slots_conflict_free_witness:
  "map startTime
     (generateAvailableSlots (\<lambda>d. Some 0) ''2025-01-06'' ''09:00'' ''11:00''
        [\<lparr> busyStart = Some 14400000, busyEnd = Some 16200000 \<rparr>] [])
   = [''09:00'', ''10:00'', ''10:30'']"
proof -
  have e: "map startTime
             (filter (slotFree (\<lambda>d. Some 0) [\<lparr> busyStart = Some 14400000, busyEnd = Some 16200000 \<rparr>] [])
                (generateAvailableSlots (\<lambda>d. Some 0) ''2025-01-06'' ''09:00'' ''11:00'' [] []))
           = [''09:00'', ''10:00'', ''10:30'']"
    by code_simp
  note t = generated_slots_conflict_free [where cal = "\<lambda>d. Some 0" and date' = "''2025-01-06''"
      and startTime' = "''09:00''" and endTime' = "''11:00''"
      and busyPeriods = "[\<lparr> busyStart = Some 14400000, busyEnd = Some 16200000 \<rparr>]"
      and existingAppointments = "[]"]
  from t have "generateAvailableSlots (\<lambda>d. Some 0) ''2025-01-06'' ''09:00'' ''11:00''
        [\<lparr> busyStart = Some 14400000, busyEnd = Some 16200000 \<rparr>] [] =
     filter (slotFree (\<lambda>d. Some 0) [\<lparr> busyStart = Some 14400000, busyEnd = Some 16200000 \<rparr>] [])
       (generateAvailableSlots (\<lambda>d. Some 0) ''2025-01-06'' ''09:00'' ''11:00'' [] [])"
    by (rule conjunct1)
  then show ?thesis using e by simp
qed

subsection \<open>The overlap test\<close>

text \<open>
  Claim C5. The conflict test is \<open>aStart < bEnd \<and> aEnd > bStart\<close>: it is symmetric, two
  intervals that touch (\<open>A.end = B.start\<close>) do not conflict, and the intervals 9:00-9:30
  and 9:15-9:45 (in minutes of the day) do. It is what \<^verbatim>\<open>isSlotConflicting\<close> evaluates
  against each busy period and each appointment, and what the conflict query of the
  booking handler evaluates against each stored appointment.
\<close>

theorem overlap_test_half_open:
  "overlaps (Some a1) (Some a2) (Some b1) (Some b2) = (a1 < b2 \<and> a2 > b1)
   \<and> overlaps aStart aEnd bStart bEnd = overlaps bStart bEnd aStart aEnd
   \<and> \<not> overlaps aStart aEnd aEnd bEnd
   \<and> \<not> overlaps (Some 540) (Some 570) (Some 570) (Some 600)
   \<and> overlaps (Some 540) (Some 570) (Some 555) (Some 585)
   \<and> isSlotConflicting cal slotStart slotEnd busyPeriods existingAppointments =
       ((\<exists>b \<in> set busyPeriods.
           overlaps (dateGetTime cal slotStart) (dateGetTime cal slotEnd) (busyStart b) (busyEnd b))
        \<or> (\<exists>a \<in> set existingAppointments.
           overlaps (dateGetTime cal slotStart) (dateGetTime cal slotEnd)
             (startDateTime a) (endDateTime a)))
   \<and> conflictsWith did start' end' appt =
       (doctorId appt = did \<and> status appt \<noteq> ''cancelled''
        \<and> overlaps start' end' (startDateTime appt) (endDateTime appt))"
proof -
  have "overlaps (Some a1) (Some a2) (Some b1) (Some b2) = (a1 < b2 \<and> a2 > b1)"
    by (simp add: overlaps_def num_gt_def)
  moreover have "overlaps aStart aEnd bStart bEnd = overlaps bStart bEnd aStart aEnd"
    by (rule overlaps_commute)
  moreover have "\<not> overlaps aStart aEnd aEnd bEnd"
    by (rule overlaps_touching)
  moreover have "\<not> overlaps (Some 540) (Some 570) (Some 570) (Some 600)"
    by (simp add: overlaps_def num_gt_def)
  moreover have "overlaps (Some 540) (Some 570) (Some 555) (Some 585)"
    by (simp add: overlaps_def num_gt_def)
  moreover have "isSlotConflicting cal slotStart slotEnd busyPeriods existingAppointments =
       ((\<exists>b \<in> set busyPeriods.
           overlaps (dateGetTime cal slotStart) (dateGetTime cal slotEnd) (busyStart b) (busyEnd b))
        \<or> (\<exists>a \<in> set existingAppointments.
           overlaps (dateGetTime cal slotStart) (dateGetTime cal slotEnd)
             (startDateTime a) (endDateTime a)))"
    by (simp add: isSlotConflicting_def Let_def busyLoop_iff apptLoop_iff)
  moreover have "conflictsWith did start' end' appt =
       (doctorId appt = did \<and> status appt \<noteq> ''cancelled''
        \<and> overlaps start' end' (startDateTime appt) (endDateTime appt))"
    by (auto simp: conflictsWith_def overlaps_def num_gt_def)
  ultimately show ?thesis by blast
qed

subsection \<open>One-time passcodes\<close>

lemma verifyOTP_valid_iff:
  "valid (fst (verifyOTP now st email code)) =
     (\<exists>e. st email = Some e \<and> otp e = code \<and> now \<le> expiryTime e \<and> attempts e < 5)"
  by (cases "st email") (auto simp: verifyOTP_def split: if_splits)

lemma verifyOTP_evicts:
  "valid (fst (verifyOTP now st email code)) \<or>
   (\<exists>e. st email = Some e \<and> (now > expiryTime e \<or> attempts e \<ge> 5))
     \<Longrightarrow> snd (verifyOTP now st email code) email = None"
  by (cases "st email") (auto simp: verifyOTP_def split: if_splits)

lemma verifyOTP_other:
  "em \<noteq> email \<Longrightarrow> snd (verifyOTP now st em c) email = st email"
  by (cases "st em") (auto simp: verifyOTP_def)

lemma verifyOTP_tracks:
  "tracks email code expiry k st \<Longrightarrow> \<not> valid (fst (verifyOTP now st email c)) \<Longrightarrow>
     tracks email code expiry (Suc k) (snd (verifyOTP now st email c))"
  by (cases "st email") (auto simp: verifyOTP_def tracks_def split: if_splits)

lemma verifyOTP_tracks_valid:
  "tracks email code expiry k st \<Longrightarrow> valid (fst (verifyOTP now st email c)) \<Longrightarrow>
     now \<le> expiry \<and> k < 5 \<and> c = code"
  by (cases "st email") (auto simp: verifyOTP_def tracks_def split: if_splits)

lemma run_none:
  "st email = None \<Longrightarrow> \<not> list_ex (reissues email) evs \<Longrightarrow>
     accepted email (fst (otpRun st evs)) = []"
proof (induction evs arbitrary: st)
  case Nil
  then show ?case by (simp add: accepted_def)
next
  case (Cons ev evs)
  show ?case
  proof (cases ev)
    case (Issue now em c)
    with Cons.prems have "em \<noteq> email" by simp
    then have "storeOTP now st em c email = None" using Cons.prems(1) by (simp add: storeOTP_def)
    then show ?thesis using Cons.IH Cons.prems(2) Issue by simp
  next
    case (TimerFires em)
    have "otpCleanup st em email = None" using Cons.prems(1) by (simp add: otpCleanup_def)
    then show ?thesis using Cons.IH Cons.prems(2) TimerFires by simp
  next
    case (Submit now em c)
    have gone: "snd (verifyOTP now st em c) email = None"
    proof (cases "em = email")
      case True
      then show ?thesis using Cons.prems(1) by (simp add: verifyOTP_def)
    next
      case False
      then show ?thesis using Cons.prems(1) by (simp add: verifyOTP_other)
    qed
    have inv: "em = email \<Longrightarrow> \<not> valid (fst (verifyOTP now st em c))"
      using Cons.prems(1) by (simp add: verifyOTP_valid_iff)
    have "accepted email (fst (otpRun (snd (verifyOTP now st em c)) evs)) = []"
      using Cons.IH [of "snd (verifyOTP now st em c)"] gone Cons.prems(2) by simp
    then show ?thesis using Submit inv
      by (auto simp: accepted_def split: prod.splits)
  qed
qed

lemma run_usedOnce:
  "tracks email code expiry k st \<Longrightarrow> \<not> list_ex (reissues email) evs \<Longrightarrow>
     usedOnce email expiry k (fst (otpRun st evs))"
proof (induction evs arbitrary: st k)
  case Nil
  then show ?case by simp
next
  case (Cons ev evs)
  show ?case
  proof (cases ev)
    case (Issue now em c)
    with Cons.prems have "em \<noteq> email" by simp
    then have "tracks email code expiry k (storeOTP now st em c)"
      using Cons.prems(1) by (simp add: tracks_def storeOTP_def)
    then show ?thesis using Cons.IH Cons.prems(2) Issue by simp
  next
    case (TimerFires em)
    have "tracks email code expiry k (otpCleanup st em)"
      using Cons.prems(1) by (auto simp: tracks_def otpCleanup_def)
    then show ?thesis using Cons.IH Cons.prems(2) TimerFires by simp
  next
    case (Submit now em c)
    have rest: "\<not> list_ex (reissues email) evs" using Cons.prems(2) by simp
    obtain r st' where v: "verifyOTP now st em c = (r, st')" by (cases "verifyOTP now st em c")
    obtain rs' final where run': "otpRun st' evs = (rs', final)" by (cases "otpRun st' evs")
    have rs: "fst (otpRun st (ev # evs)) = (em, now, r) # rs'"
      using Submit v run' by simp
    show ?thesis
    proof (cases "em = email")
      case False
      then have "st' email = st email" using verifyOTP_other [of em email now st c] v by simp
      then have "tracks email code expiry k st'" using Cons.prems(1) by (simp add: tracks_def)
      from Cons.IH [OF this rest] show ?thesis using rs run' False by simp
    next
      case True
      show ?thesis
      proof (cases "valid r")
        case True
        have "st' email = None" using verifyOTP_evicts [of now st email c] v \<open>em = email\<close> True by simp
        from run_none [of st' email evs] this rest have "accepted email rs' = []" using run' by simp
        moreover have "now \<le> expiry \<and> k < 5"
          using verifyOTP_tracks_valid [OF Cons.prems(1), of now c] v \<open>em = email\<close> True by simp
        ultimately show ?thesis using rs True \<open>em = email\<close> by simp
      next
        case False
        have "tracks email code expiry (Suc k) st'"
          using verifyOTP_tracks [OF Cons.prems(1), of now c] v \<open>em = email\<close> False by simp
        from Cons.IH [OF this rest] show ?thesis using rs run' False \<open>em = email\<close> by simp
      qed
    qed
  qed
qed

lemma usedOnce_accepted: "usedOnce email expiry k rs \<Longrightarrow> length (accepted email rs) \<le> 1"
proof (induction rs arbitrary: k)
  case Nil
  then show ?case by (simp add: accepted_def)
next
  case (Cons x rs)
  obtain e t r where x: "x = (e, t, r)" by (cases x)
  show ?case
  proof (cases "e = email \<and> valid r")
    case True
    then have "accepted email rs = []" using Cons.prems x by simp
    then show ?thesis using x True by (simp add: accepted_def)
  next
    case False
    then have "\<exists>k'. usedOnce email expiry k' rs" using Cons.prems x by (auto split: if_splits)
    then have "length (accepted email rs) \<le> 1" using Cons.IH by blast
    then show ?thesis using x False by (auto simp: accepted_def)
  qed
qed

lemma usedOnce_split:
  "usedOnce email expiry k rs \<Longrightarrow> rs = pre @ (email, t, r) # post \<Longrightarrow> valid r \<Longrightarrow>
     t \<le> expiry \<and> k + length (rejected email pre) < 5 \<and> accepted email pre = []
       \<and> accepted email post = []"
proof (induction pre arbitrary: k rs)
  case Nil
  then show ?case by (simp add: accepted_def rejected_def)
next
  case (Cons x pre)
  obtain e t' r' where x: "x = (e, t', r')" by (cases x)
  let ?rs = "pre @ (email, t, r) # post"
  have acc: "accepted email ?rs \<noteq> []" using Cons.prems(3) by (simp add: accepted_def)
  show ?case
  proof (cases "e = email")
    case False
    then have "usedOnce email expiry k ?rs" using Cons.prems x by simp
    from Cons.IH [OF this refl Cons.prems(3)] show ?thesis
      using x False by (simp add: accepted_def rejected_def)
  next
    case True
    have nv: "\<not> valid r'" using Cons.prems(1,2) x True acc by auto
    then have "usedOnce email expiry (Suc k) ?rs" using Cons.prems x True by simp
    from Cons.IH [OF this refl Cons.prems(3)] show ?thesis
      using x True nv by (simp add: accepted_def rejected_def)
  qed
qed

text \<open>
  Claim C9. \<^verbatim>\<open>verifyOTP\<close> answers valid exactly when an entry is stored for the address,
  the submitted code equals the stored one, the time is at or before the stored expiry and
  fewer than 5 attempts are recorded; on success, on expiry and on attempt exhaustion the
  entry is removed. Hence, after a code is issued at \<open>t0\<close> and as long as no new code is
  issued for the address, whatever else happens (submissions for any address, clean-up
  timers, codes issued for other addresses): at most one submission is accepted, it
  happens at or before \<open>t0\<close> plus 5 minutes, and fewer than 5 rejected submissions for
  the address precede it.
\<close>

theorem otp_consumed_at_most_once:
  "valid (fst (verifyOTP now otpStore email code)) =
     (\<exists>e. otpStore email = Some e \<and> otp e = code \<and> now \<le> expiryTime e \<and> attempts e < 5)
   \<and> (valid (fst (verifyOTP now otpStore email code)) \<or>
        (\<exists>e. otpStore email = Some e \<and> (now > expiryTime e \<or> attempts e \<ge> 5))
       \<longrightarrow> snd (verifyOTP now otpStore email code) email = None)
   \<and> (\<not> list_ex (reissues email) evs \<longrightarrow>
        length (accepted email (fst (otpRun (storeOTP t0 otpStore email issued) evs))) \<le> 1
        \<and> (\<forall>pre t r post.
              fst (otpRun (storeOTP t0 otpStore email issued) evs) = pre @ (email, t, r) # post
                \<and> valid r
              \<longrightarrow> t \<le> t0 + 5 * 60 * 1000 \<and> length (rejected email pre) < 5
                  \<and> accepted email pre = [] \<and> accepted email post = []))"
proof -
  have tr: "tracks email issued (t0 + 5 * 60 * 1000) 0 (storeOTP t0 otpStore email issued)"
    by (simp add: tracks_def storeOTP_def OTP_EXPIRY_TIME_def)
  have seq: "length (accepted email (fst (otpRun (storeOTP t0 otpStore email issued) evs))) \<le> 1
        \<and> (\<forall>pre t r post.
              fst (otpRun (storeOTP t0 otpStore email issued) evs) = pre @ (email, t, r) # post
                \<and> valid r
              \<longrightarrow> t \<le> t0 + 5 * 60 * 1000 \<and> length (rejected email pre) < 5
                  \<and> accepted email pre = [] \<and> accepted email post = [])"
    if "\<not> list_ex (reissues email) evs"
  proof -
    note u = run_usedOnce [OF tr that]
    show ?thesis
      using usedOnce_accepted [OF u] usedOnce_split [OF u] by fastforce
  qed
  show ?thesis
    using verifyOTP_valid_iff [of now otpStore email code]
      verifyOTP_evicts [of now otpStore email code] seq by blast
qed


theorem otp_consumed_at_most_once_witness:
  "\<not> list_ex (reissues ''a@x.org'')
       [Submit 10 ''a@x.org'' ''000000'', Submit 20 ''a@x.org'' ''123456'',
        Submit 30 ''a@x.org'' ''123456'']
   \<and> map (\<lambda>(e, t, r). valid r)
         (fst (otpRun (storeOTP 0 Map.empty ''a@x.org'' ''123456'')
            [Submit 10 ''a@x.org'' ''000000'', Submit 20 ''a@x.org'' ''123456'',
             Submit 30 ''a@x.org'' ''123456'']))
       = [False, True, False]
   \<and> length (accepted ''a@x.org''
         (fst (otpRun (storeOTP 0 Map.empty ''a@x.org'' ''123456'')
            [Submit 10 ''a@x.org'' ''000000'', Submit 20 ''a@x.org'' ''123456'',
             Submit 30 ''a@x.org'' ''123456'']))) \<le> 1"
proof -
  let ?evs = "[Submit 10 ''a@x.org'' ''000000'', Submit 20 ''a@x.org'' ''123456'',
               Submit 30 ''a@x.org'' ''123456'']"
  have h: "\<not> list_ex (reissues ''a@x.org'') ?evs" by simp
  have r: "map (\<lambda>(e, t, r). valid r)
         (fst (otpRun (storeOTP 0 Map.empty ''a@x.org'' ''123456'') ?evs))
       = [False, True, False]"
    by (simp add: storeOTP_def verifyOTP_def OTP_EXPIRY_TIME_def)
  note t = otp_consumed_at_most_once [where email = "''a@x.org''" and evs = ?evs
      and ?t0.0 = 0 and otpStore = Map.empty and issued = "''123456''"]
  from t h have "length (accepted ''a@x.org''
         (fst (otpRun (storeOTP 0 Map.empty ''a@x.org'' ''123456'') ?evs))) \<le> 1"
    by blast
  then show ?thesis using h r by blast
qed

subsection \<open>The outcome of a booking\<close>

lemma find_None_list_ex: "(find P xs = None) = (\<not> list_ex P xs)"
  by (induction xs) auto

lemma finishBooking_outcome:
  assumes "\<forall>to. SendConfirmationEmail to \<notin> set calls1"
  shows "refusedOutcome st1 (finishBooking e st1 calls1 req doctor' patient' sISO eISO start' end')
       \<or> bookedOutcome e st1 (d_doctorId doctor') start' end'
            (finishBooking e st1 calls1 req doctor' patient' sISO eISO start' end')"
proof (cases "appointmentSaveError (appointments st1)
                (newAppointment e req doctor' patient' (googleEventOf e) start' end')")
  case (Some msg)
  then have "finishBooking e st1 calls1 req doctor' patient' sISO eISO start' end'
               = (errorReply 500 msg, st1, calls1 @ [CreateEvent sISO eISO])"
    by (simp add: finishBooking_def Let_def)
  then show ?thesis using assms by (simp add: refusedOutcome_def errorReply_def)
next
  case None
  let ?a = "newAppointment e req doctor' patient' (googleEventOf e) start' end'"
  have a: "status ?a = ''confirmed''" "doctorId ?a = d_doctorId doctor'"
    "startDateTime ?a = Some start'" "endDateTime ?a = Some end'"
    by (simp_all add: newAppointment_def)
  show ?thesis
  proof (cases "truthy (p_email patient')")
    case True
    then have "finishBooking e st1 calls1 req doctor' patient' sISO eISO start' end'
       = (okReply (BookedBody ?a patient'
                         (Some (case sendConfirmationEmail e (p_email patient') of
                                  Inl msg \<Rightarrow> MailError msg
                                | Inr es \<Rightarrow> es))
                         (htmlLink (googleEventOf e))),
           st1\<lparr> appointments := appointments st1 @ [?a] \<rparr>,
           calls1 @ [CreateEvent sISO eISO, AppointmentSave (appointmentId ?a),
                     SendConfirmationEmail (textOf (p_email patient'))])"
      using None by (simp add: finishBooking_def Let_def)
    then have "bookedOutcome e st1 (d_doctorId doctor') start' end'
            (finishBooking e st1 calls1 req doctor' patient' sISO eISO start' end')"
      using a True by (auto simp: bookedOutcome_def)
    then show ?thesis ..
  next
    case False
    then have "finishBooking e st1 calls1 req doctor' patient' sISO eISO start' end'
       = (okReply (BookedBody ?a patient' None (htmlLink (googleEventOf e))),
           st1\<lparr> appointments := appointments st1 @ [?a] \<rparr>,
           calls1 @ [CreateEvent sISO eISO, AppointmentSave (appointmentId ?a)])"
      using None by (simp add: finishBooking_def Let_def)
    then have "bookedOutcome e st1 (d_doctorId doctor') start' end'
            (finishBooking e st1 calls1 req doctor' patient' sISO eISO start' end')"
      using a False assms by (auto simp: bookedOutcome_def)
    then show ?thesis ..
  qed
qed


lemma find_Some_holds: "find P xs = Some x \<Longrightarrow> P x \<and> x \<in> set xs"
  by (induction xs) (auto split: if_splits)

lemma bookSlot_outcome:
  assumes "\<forall>to. SendConfirmationEmail to \<notin> set calls1"
  shows "refusedOutcome st1 (bookSlot cal e st1 calls1 req doctor' patient')
       \<or> (\<exists>sISO eISO start' end'.
             parseTimeSlot (textOf (b_date req)) (textOf (b_timeSlot req)) = Some (sISO, eISO)
             \<and> dateGetTime cal sISO = Some start' \<and> dateGetTime cal eISO = Some end'
             \<and> \<not> list_ex (conflictsWith (d_doctorId doctor') (Some start') (Some end'))
                   (appointments st1)
             \<and> bookedOutcome e st1 (d_doctorId doctor') start' end'
                  (bookSlot cal e st1 calls1 req doctor' patient'))"
proof (cases "parseTimeSlot (textOf (b_date req)) (textOf (b_timeSlot req))")
  case None
  then show ?thesis using assms
    by (simp add: bookSlot_def refusedOutcome_def errorReply_def)
next
  case (Some isos)
  obtain sISO eISO where isos: "isos = (sISO, eISO)" by (cases isos)
  show ?thesis
  proof (cases "dateGetTime cal sISO")
    case None
    then show ?thesis using assms Some isos
      by (simp add: bookSlot_def refusedOutcome_def errorReply_def)
  next
    case s: (Some start')
    show ?thesis
    proof (cases "dateGetTime cal eISO")
      case None
      then show ?thesis using assms Some isos s
        by (simp add: bookSlot_def refusedOutcome_def errorReply_def)
    next
      case en: (Some end')
      show ?thesis
      proof (cases "find (conflictsWith (d_doctorId doctor') (Some start') (Some end'))
                      (appointments st1)")
        case (Some c)
        then show ?thesis using assms \<open>parseTimeSlot _ _ = Some isos\<close> isos s en
          by (simp add: bookSlot_def refusedOutcome_def errorReply_def)
      next
        case None
        let ?calls = "calls1 @ [AppointmentFindOne (d_doctorId doctor')]"
        have eq: "bookSlot cal e st1 calls1 req doctor' patient'
                = finishBooking e st1 ?calls req doctor' patient' sISO eISO start' end'"
          using None \<open>parseTimeSlot _ _ = Some isos\<close> isos s en by (simp add: bookSlot_def)
        have "\<forall>to. SendConfirmationEmail to \<notin> set ?calls" using assms by simp
        from finishBooking_outcome [OF this, of st1 e req doctor' patient' sISO eISO start' end']
        show ?thesis
          using eq None \<open>parseTimeSlot _ _ = Some isos\<close> isos s en
          by (auto simp: find_None_list_ex)
      qed
    qed
  qed
qed

lemma bookAppointment_outcome:
  "refusedOutcome st (bookAppointment cal e st req)
   \<or> (\<exists>ps sISO eISO start' end'.
         parseTimeSlot (textOf (b_date req)) (textOf (b_timeSlot req)) = Some (sISO, eISO)
         \<and> dateGetTime cal sISO = Some start' \<and> dateGetTime cal eISO = Some end'
         \<and> \<not> list_ex (conflictsWith (textOf (b_doctorId req)) (Some start') (Some end'))
               (appointments st)
         \<and> bookedOutcome e (st\<lparr> patients := ps \<rparr>) (textOf (b_doctorId req)) start' end'
              (bookAppointment cal e st req))"
proof (cases "\<not> truthy (b_doctorId req) \<or> \<not> truthy (b_patientName req)
         \<or> \<not> truthy (b_date req) \<or> \<not> truthy (b_timeSlot req)")
  case True
  then have "bookAppointment cal e st req = (errorReply 400 ''Missing required fields'', st, [])"
    by (simp add: bookAppointment_def)
  then show ?thesis by (simp add: refusedOutcome_def errorReply_def)
next
  case fields: False
  show ?thesis
  proof (cases "\<not> truthy (b_patientEmail req) \<and> \<not> truthy (b_patientPhone req)")
    case True
    then have "bookAppointment cal e st req
                 = (errorReply 400 ''Either email or phone is required'', st, [])"
      using fields by (simp add: bookAppointment_def)
    then show ?thesis by (simp add: refusedOutcome_def errorReply_def)
  next
    case contact: False
    show ?thesis
    proof (cases "find (\<lambda>d. d_doctorId d = textOf (b_doctorId req)) (doctors st)")
      case None
      then show ?thesis using fields contact
        by (auto simp: bookAppointment_def refusedOutcome_def errorReply_def)
    next
      case (Some doctor')
      then have did: "d_doctorId doctor' = textOf (b_doctorId req)"
        using find_Some_holds [of "\<lambda>d. d_doctorId d = textOf (b_doctorId req)"] by blast
      show ?thesis
      proof (cases "upsertPatient e (patients st) req")
        case (Inl msg)
        then show ?thesis using fields contact Some
          by (auto simp: bookAppointment_def refusedOutcome_def errorReply_def)
      next
        case (Inr pp)
        obtain patient' ps where pp: "pp = (patient', ps)" by (cases pp)
        let ?calls = "[DoctorFindOne (textOf (b_doctorId req)), PatientFindOne,
                     PatientSave (p_patientId patient')]"
        have eq: "bookAppointment cal e st req
                    = bookSlot cal e (st\<lparr> patients := ps \<rparr>) ?calls req doctor' patient'"
          using fields contact Some Inr pp by (auto simp: bookAppointment_def)
        have "\<forall>to. SendConfirmationEmail to \<notin> set ?calls" by simp
        from bookSlot_outcome [OF this, of "st\<lparr> patients := ps \<rparr>" cal e req doctor' patient']
        show ?thesis unfolding eq did
          by (auto simp: refusedOutcome_def)
      qed
    qed
  qed
qed


lemma admitted_bookSlot:
  assumes "admitted e st req"
  shows "\<exists>doctor' patient' ps calls1.
           d_doctorId doctor' = textOf (b_doctorId req)
           \<and> bookAppointment cal e st req
               = bookSlot cal e (st\<lparr> patients := ps \<rparr>) calls1 req doctor' patient'"
proof -
  obtain doctor' where d: "find (\<lambda>d. d_doctorId d = textOf (b_doctorId req)) (doctors st) = Some doctor'"
    using assms by (cases "find (\<lambda>d. d_doctorId d = textOf (b_doctorId req)) (doctors st)")
      (auto simp: admitted_def find_None_list_ex)
  obtain patient' ps where u: "upsertPatient e (patients st) req = Inr (patient', ps)"
    using assms by (cases "upsertPatient e (patients st) req") (auto simp: admitted_def)
  have "bookAppointment cal e st req
          = bookSlot cal e (st\<lparr> patients := ps \<rparr>)
              [DoctorFindOne (textOf (b_doctorId req)), PatientFindOne,
               PatientSave (p_patientId patient')] req doctor' patient'"
    using assms d u by (auto simp: bookAppointment_def admitted_def)
  moreover have "d_doctorId doctor' = textOf (b_doctorId req)"
    using find_Some_holds [OF d] by simp
  ultimately show ?thesis by blast
qed

lemma conflictsWith_overlaps:
  "conflictsWith did s e a =
     (doctorId a = did \<and> status a \<noteq> ''cancelled''
      \<and> overlaps s e (startDateTime a) (endDateTime a))"
  by (auto simp: conflictsWith_def overlaps_def num_gt_def)

text \<open>
  The conflict query, for the interval that the handler derives from the slot text: when
  that interval overlaps a stored, not cancelled appointment of the requested doctor, the
  request adds no appointment and is not answered with success; and every such request
  that reaches the conflict query (its fields are present, its doctor exists and its
  patient is saved) is answered with status 409. For a slot text that does not start on a
  full or half hour the derived interval is not the interval of the text.
\<close>

theorem booking_conflict_rejected:
  assumes "parseTimeSlot (textOf (b_date req)) (textOf (b_timeSlot req)) = Some (sISO, eISO)"
    and "dateGetTime cal sISO = Some start'" and "dateGetTime cal eISO = Some end'"
    and "a \<in> set (appointments st)" and "doctorId a = textOf (b_doctorId req)"
    and "status a \<noteq> ''cancelled''"
    and "overlaps (Some start') (Some end') (startDateTime a) (endDateTime a)"
    and "bookAppointment cal e st req = (r, st', calls)"
  shows "appointments st' = appointments st \<and> httpStatus r \<noteq> 200
         \<and> (admitted e st req \<longrightarrow>
               r = errorReply 409 ''This time slot is no longer available'')"
proof -
  have ex: "list_ex (conflictsWith (textOf (b_doctorId req)) (Some start') (Some end'))
              (appointments st)"
    using assms(4-7) by (auto simp: list_ex_iff conflictsWith_overlaps)
  have "refusedOutcome st (bookAppointment cal e st req)"
    using bookAppointment_outcome [of st cal e req] ex assms(1-3) by auto
  then have first: "appointments st' = appointments st \<and> httpStatus r \<noteq> 200"
    using assms(8) by (simp add: refusedOutcome_def)
  have second: "r = errorReply 409 ''This time slot is no longer available''"
    if "admitted e st req"
  proof -
    from admitted_bookSlot [OF that, of cal]
    obtain doctor' patient' ps calls1 where
      did: "d_doctorId doctor' = textOf (b_doctorId req)" and
      eq: "bookAppointment cal e st req
               = bookSlot cal e (st\<lparr> patients := ps \<rparr>) calls1 req doctor' patient'"
      by blast
    obtain c where "find (conflictsWith (d_doctorId doctor') (Some start') (Some end'))
                      (appointments (st\<lparr> patients := ps \<rparr>)) = Some c"
      using ex did
      by (cases "find (conflictsWith (d_doctorId doctor') (Some start') (Some end'))
                      (appointments (st\<lparr> patients := ps \<rparr>))")
         (auto simp: find_None_list_ex)
    then have "bookSlot cal e (st\<lparr> patients := ps \<rparr>) calls1 req doctor' patient'
                 = (errorReply 409 ''This time slot is no longer available'',
                    st\<lparr> patients := ps \<rparr>, calls1 @ [AppointmentFindOne (d_doctorId doctor')])"
      using assms(1-3) by (simp add: bookSlot_def)
    then show ?thesis using eq assms(8) by simp
  qed
  show ?thesis using first second by blast
qed

text \<open>
  Claim C7. When the handler gets as far as sending the confirmation mail, which is after
  the conflict query and after saving, and the transport fails, the response is the
  success response (status 200) with the failure in its \<^verbatim>\<open>emailStatus\<close>, and the new
  appointment is stored with status confirmed.
\<close>

theorem booking_survives_mail_failure:
  assumes "bookAppointment cal e st req = (r, st', calls)"
    and "SendConfirmationEmail to \<in> set calls"
    and "smtpHost e" and "transportResult e = Inl msg"
  shows "\<exists>a p link. r = okReply (BookedBody a p (Some (MailError msg)) link)
           \<and> httpStatus r = 200
           \<and> appointments st' = appointments st @ [a] \<and> status a = ''confirmed''"
proof -
  have "\<not> refusedOutcome st (bookAppointment cal e st req)"
    using assms(1,2) by (auto simp: refusedOutcome_def)
  then obtain ps start' end' where
    "bookedOutcome e (st\<lparr> patients := ps \<rparr>) (textOf (b_doctorId req)) start' end' (r, st', calls)"
    using bookAppointment_outcome [of st cal e req] assms(1) by auto
  then obtain a p link where
    st': "st' = st\<lparr> patients := ps, appointments := appointments st @ [a] \<rparr>"
    and a: "status a = ''confirmed''"
    and r: "r = okReply (BookedBody a p
                   (if truthy (p_email p)
                    then Some (case sendConfirmationEmail e (p_email p) of
                                 Inl msg \<Rightarrow> MailError msg | Inr es \<Rightarrow> es)
                    else None) link)"
    and sent: "(\<exists>to. SendConfirmationEmail to \<in> set calls) = truthy (p_email p)"
    by (auto simp: bookedOutcome_def)
  have t: "truthy (p_email p)" using sent assms(2) by blast
  then have "sendConfirmationEmail e (p_email p) = Inl msg"
    using assms(3,4) by (simp add: sendConfirmationEmail_def)
  then have "r = okReply (BookedBody a p (Some (MailError msg)) link)"
    using r t by simp
  then show ?thesis using st' a by (auto simp: okReply_def)
qed

subsection \<open>The invariant of the appointment collection\<close>

lemma noDoubleBooking_append:
  "noDoubleBooking (xs @ [a]) = (noDoubleBooking xs \<and> \<not> list_ex (\<lambda>b. clash b a) xs)"
  by (induction xs) (auto simp: list_ex_iff)

lemma clash_conflictsWith:
  "status a \<noteq> ''cancelled'' \<Longrightarrow>
     clash b a = conflictsWith (doctorId a) (startDateTime a) (endDateTime a) b"
  by (auto simp: clash_def conflictsWith_def overlaps_def num_gt_def)

lemma noDoubleBooking_updateFirst:
  assumes "\<And>x y. clash (f x) y \<Longrightarrow> clash x y" and "\<And>x y. clash y (f x) \<Longrightarrow> clash y x"
  shows "noDoubleBooking xs \<Longrightarrow> noDoubleBooking (updateFirst P f xs)"
proof (induction xs)
  case Nil
  then show ?case by simp
next
  case (Cons x xs)
  have sub: "list_ex (clash x) (updateFirst P f xs) \<Longrightarrow> list_ex (clash x) xs" for x
  proof (induction xs)
    case Nil
    then show ?case by simp
  next
    case (Cons y ys)
    then show ?case using assms(2) by (auto split: if_splits)
  qed
  show ?case using Cons assms(1) sub by (auto simp: list_ex_iff)
qed

lemma noDoubleBooking_removeFirst:
  "noDoubleBooking xs \<Longrightarrow> noDoubleBooking (removeFirst P xs)"
proof (induction xs)
  case Nil
  then show ?case by simp
next
  case (Cons x xs)
  have sub: "set (removeFirst P xs) \<subseteq> set xs" for xs :: "appointment list"
    by (induction xs) auto
  show ?case using Cons sub [of xs] by (auto simp: list_ex_iff)
qed

lemma book_preserves:
  assumes "noDoubleBooking (appointments st)"
    and "bookAppointment cal e st req = (r, st', calls)"
  shows "noDoubleBooking (appointments st')"
proof (cases "refusedOutcome st (bookAppointment cal e st req)")
  case True
  then show ?thesis using assms by (simp add: refusedOutcome_def)
next
  case False
  then obtain ps start' end' where
    no: "\<not> list_ex (conflictsWith (textOf (b_doctorId req)) (Some start') (Some end'))
               (appointments st)"
    and "bookedOutcome e (st\<lparr> patients := ps \<rparr>) (textOf (b_doctorId req)) start' end' (r, st', calls)"
    using bookAppointment_outcome [of st cal e req] assms(2) by auto
  then obtain a where a: "appointments st' = appointments st @ [a]" "status a = ''confirmed''"
    "doctorId a = textOf (b_doctorId req)" "startDateTime a = Some start'" "endDateTime a = Some end'"
    by (auto simp: bookedOutcome_def)
  have "status a \<noteq> ''cancelled''" using a(2) by simp
  from clash_conflictsWith [OF this] have "\<not> list_ex (\<lambda>b. clash b a) (appointments st)"
    using no a by simp
  then show ?thesis using assms(1) a(1) by (simp add: noDoubleBooking_append)
qed

lemma perform_preserves:
  assumes "noDoubleBooking (appointments st)" and "perform cal st op = (r, st')"
  shows "noDoubleBooking (appointments st')"
proof (cases op)
  case (Book e req)
  then show ?thesis using assms book_preserves [of st cal e req]
    by (auto split: prod.splits)
next
  case (Cancel aid)
  have "noDoubleBooking (updateFirst (\<lambda>a. appointmentId a = aid) (\<lambda>a. a\<lparr> status := ''cancelled'' \<rparr>)
          (appointments st))"
    by (rule noDoubleBooking_updateFirst) (auto simp: clash_def assms(1))
  then show ?thesis using assms Cancel
    by (auto simp: cancelAppointment_def split: option.splits)
next
  case (Delete aid)
  then show ?thesis using assms noDoubleBooking_removeFirst [of "appointments st"]
    by (auto simp: deleteAppointment_def split: option.splits)
qed

text \<open>
  Starting from a collection without double booking, no sequence of bookings and
  cancellations (of either kind) stores two appointments of one doctor, both not
  cancelled, whose stored intervals overlap.
\<close>

theorem no_double_booking_invariant:
  "noDoubleBooking (appointments st) \<Longrightarrow> performAll cal st ops = (rs, st') \<Longrightarrow>
     noDoubleBooking (appointments st')"
proof (induction ops arbitrary: st rs)
  case Nil
  then show ?case by simp
next
  case (Cons op ops)
  obtain r st1 where p: "perform cal st op = (r, st1)" by (cases "perform cal st op")
  obtain rs' where "performAll cal st1 ops = (rs', st')"
    using Cons.prems(2) p by (auto split: prod.splits)
  then show ?case using Cons.IH perform_preserves [OF Cons.prems(1) p] by blast
qed

subsection \<open>The example bookings, evaluated\<close>

lemma example_parse:
  "parseTimeSlot ''2025-01-06'' ''09:00 AM - 09:30 AM''
     = Some (''2025-01-06T09:00:00+05:30'', ''2025-01-06T09:30:00+05:30'')"
  "parseTimeSlot ''2025-01-06'' ''09:45 AM - 10:15 AM''
     = Some (''2025-01-06T09:45:00+05:30'', ''2025-01-06T09:30:00+05:30'')"
  by code_simp+

lemma example_instants:
  "dateGetTime exampleCalendar ''2025-01-06T09:00:00+05:30'' = Some 1736134200000"
  "dateGetTime exampleCalendar ''2025-01-06T09:30:00+05:30'' = Some 1736136000000"
  "dateGetTime exampleCalendar ''2025-01-06T09:45:00+05:30'' = Some 1736136900000"
  by (simp_all add: dateGetTime_def exampleCalendar_def twoDigits_def isDigit_def
        digitsValue_def digitVal_def)

lemma example_clock: "toString 1736000000000 = ''1736000000000''"
  by (simp add: toString_def natToString.simps digitChar_def)

lemmas example_defs =
  bookAppointment_def bookSlot_def finishBooking_def newAppointment_def googleEventOf_def
  exampleState_def exampleRequest_def exampleEnv_def exampleDoctor_def examplePatient_def
  exampleAppointment_def exampleBooked_def truthy_def textOf_def orElse_def upsertPatient_def
  contactMatches_def appointmentSaveError_def sendConfirmationEmail_def conflictsWith_def
  num_gt_def Let_def example_parse example_instants example_clock

lemma example_first_aligned:
  "bookAppointment exampleCalendar (exampleEnv ''1'') exampleState
     (exampleRequest ''09:00 AM - 09:30 AM'')
   = (okReply (BookedBody (exampleAppointment ''1'' ''09:00 AM - 09:30 AM'' 1736134200000 1736136000000)
                 examplePatient (Some (MailError ''connect ECONNREFUSED'')) None),
      exampleBooked [exampleAppointment ''1'' ''09:00 AM - 09:30 AM'' 1736134200000 1736136000000],
      [DoctorFindOne ''D-1'', PatientFindOne, PatientSave ''P-1'', AppointmentFindOne ''D-1'',
       CreateEvent ''2025-01-06T09:00:00+05:30'' ''2025-01-06T09:30:00+05:30'',
       AppointmentSave ''A-1'', SendConfirmationEmail ''asha@example.org''])"
  by (simp add: example_defs)

lemma example_second_aligned:
  "bookAppointment exampleCalendar (exampleEnv ''2'')
     (exampleBooked [exampleAppointment ''1'' ''09:00 AM - 09:30 AM'' 1736134200000 1736136000000])
     (exampleRequest ''09:00 AM - 09:30 AM'')
   = (errorReply 409 ''This time slot is no longer available'',
      exampleBooked [exampleAppointment ''1'' ''09:00 AM - 09:30 AM'' 1736134200000 1736136000000],
      [DoctorFindOne ''D-1'', PatientFindOne, PatientSave ''P-1'', AppointmentFindOne ''D-1''])"
  by (simp add: example_defs)

lemma example_first_unaligned:
  "bookAppointment exampleCalendar (exampleEnv ''1'') exampleState
     (exampleRequest ''09:45 AM - 10:15 AM'')
   = (okReply (BookedBody (exampleAppointment ''1'' ''09:45 AM - 10:15 AM'' 1736136900000 1736136000000)
                 examplePatient (Some (MailError ''connect ECONNREFUSED'')) None),
      exampleBooked [exampleAppointment ''1'' ''09:45 AM - 10:15 AM'' 1736136900000 1736136000000],
      [DoctorFindOne ''D-1'', PatientFindOne, PatientSave ''P-1'', AppointmentFindOne ''D-1'',
       CreateEvent ''2025-01-06T09:45:00+05:30'' ''2025-01-06T09:30:00+05:30'',
       AppointmentSave ''A-1'', SendConfirmationEmail ''asha@example.org''])"
  by (simp add: example_defs)

lemma example_second_unaligned:
  "bookAppointment exampleCalendar (exampleEnv ''2'')
     (exampleBooked [exampleAppointment ''1'' ''09:45 AM - 10:15 AM'' 1736136900000 1736136000000])
     (exampleRequest ''09:45 AM - 10:15 AM'')
   = (okReply (BookedBody (exampleAppointment ''2'' ''09:45 AM - 10:15 AM'' 1736136900000 1736136000000)
                 examplePatient (Some (MailError ''connect ECONNREFUSED'')) None),
      exampleBooked [exampleAppointment ''1'' ''09:45 AM - 10:15 AM'' 1736136900000 1736136000000,
                     exampleAppointment ''2'' ''09:45 AM - 10:15 AM'' 1736136900000 1736136000000],
      [DoctorFindOne ''D-1'', PatientFindOne, PatientSave ''P-1'', AppointmentFindOne ''D-1'',
       CreateEvent ''2025-01-06T09:45:00+05:30'' ''2025-01-06T09:30:00+05:30'',
       AppointmentSave ''A-2'', SendConfirmationEmail ''asha@example.org''])"
  by (simp add: example_defs)

lemma example_unaligned_offered:
  "map time (generateAvailableSlots exampleCalendar ''2025-01-06'' ''09:15'' ''10:30'' []
      [exampleAppointment ''1'' ''09:45 AM - 10:15 AM'' 1736136900000 1736136000000,
       exampleAppointment ''2'' ''09:45 AM - 10:15 AM'' 1736136900000 1736136000000])
   = [''09:15 AM - 09:45 AM'', ''09:45 AM - 10:15 AM'']"
proof -
  have hm: "hourMinute ''09:15'' = Some (9, 15)" "hourMinute ''10:30'' = Some (10, 30)"
    by code_simp+
  have st: "slotStarts 555 630 = [555, 585]"
    by (simp add: slotStarts_def upt_conv_Cons)
  have sl: "time (slotAt ''2025-01-06'' 555) = ''09:15 AM - 09:45 AM''"
    "time (slotAt ''2025-01-06'' 585) = ''09:45 AM - 10:15 AM''"
    "startISO (slotAt ''2025-01-06'' 555) = ''2025-01-06T09:15:00+05:30''"
    "endISO (slotAt ''2025-01-06'' 555) = ''2025-01-06T09:45:00+05:30''"
    "startISO (slotAt ''2025-01-06'' 585) = ''2025-01-06T09:45:00+05:30''"
    "endISO (slotAt ''2025-01-06'' 585) = ''2025-01-06T10:15:00+05:30''"
    by code_simp+
  have inst: "dateGetTime exampleCalendar ''2025-01-06T09:15:00+05:30'' = Some 1736135100000"
    "dateGetTime exampleCalendar ''2025-01-06T10:15:00+05:30'' = Some 1736138700000"
    by (simp_all add: dateGetTime_def exampleCalendar_def twoDigits_def isDigit_def
        digitsValue_def digitVal_def)
  show ?thesis
    by (simp add: gen_filter hm st sl inst example_instants slotFree_def isSlotConflicting_def
          exampleAppointment_def num_gt_def)
qed

text \<open>
  Claim C2, at an input where it fails. The label \<^verbatim>\<open>09:45 AM - 10:15 AM\<close>, which the
  generator offers for a working day from 09:15, is booked twice in a row for the same
  doctor: both requests are answered with status 200, both appointments are stored as
  confirmed, each with the interval from 09:45 to 09:30 that the handler derives, and the
  generator still offers the slot. For a slot on a full or half hour the second request
  is answered with 409 (\<open>example_second_aligned\<close>).
\<close>

theorem unaligned_slot_booked_twice:
  "map httpStatus
     (fst (performAll exampleCalendar exampleState
        [Book (exampleEnv ''1'') (exampleRequest ''09:45 AM - 10:15 AM''),
         Book (exampleEnv ''2'') (exampleRequest ''09:45 AM - 10:15 AM'')])) = [200, 200]
   \<and> map (\<lambda>a. (doctorId a, timeSlot a, status a, startDateTime a, endDateTime a))
       (appointments (snd (performAll exampleCalendar exampleState
          [Book (exampleEnv ''1'') (exampleRequest ''09:45 AM - 10:15 AM''),
           Book (exampleEnv ''2'') (exampleRequest ''09:45 AM - 10:15 AM'')])))
     = [(''D-1'', ''09:45 AM - 10:15 AM'', ''confirmed'', Some 1736136900000, Some 1736136000000),
        (''D-1'', ''09:45 AM - 10:15 AM'', ''confirmed'', Some 1736136900000, Some 1736136000000)]
   \<and> map time (generateAvailableSlots exampleCalendar ''2025-01-06'' ''09:15'' ''10:30'' []
        (appointments (snd (performAll exampleCalendar exampleState
          [Book (exampleEnv ''1'') (exampleRequest ''09:45 AM - 10:15 AM''),
           Book (exampleEnv ''2'') (exampleRequest ''09:45 AM - 10:15 AM'')]))))
       = [''09:15 AM - 09:45 AM'', ''09:45 AM - 10:15 AM'']"
proof -
  have run: "performAll exampleCalendar exampleState
        [Book (exampleEnv ''1'') (exampleRequest ''09:45 AM - 10:15 AM''),
         Book (exampleEnv ''2'') (exampleRequest ''09:45 AM - 10:15 AM'')]
     = ([okReply (BookedBody (exampleAppointment ''1'' ''09:45 AM - 10:15 AM'' 1736136900000 1736136000000)
                 examplePatient (Some (MailError ''connect ECONNREFUSED'')) None),
         okReply (BookedBody (exampleAppointment ''2'' ''09:45 AM - 10:15 AM'' 1736136900000 1736136000000)
                 examplePatient (Some (MailError ''connect ECONNREFUSED'')) None)],
        exampleBooked [exampleAppointment ''1'' ''09:45 AM - 10:15 AM'' 1736136900000 1736136000000,
                     exampleAppointment ''2'' ''09:45 AM - 10:15 AM'' 1736136900000 1736136000000])"
    by (simp add: example_first_unaligned example_second_unaligned)
  show ?thesis
    unfolding run
    by (simp add: okReply_def exampleBooked_def example_unaligned_offered)
       (simp add: exampleAppointment_def)
qed

theorem booking_conflict_rejected_witness:
  "admitted (exampleEnv ''2'')
     (exampleBooked [exampleAppointment ''1'' ''09:00 AM - 09:30 AM'' 1736134200000 1736136000000])
     (exampleRequest ''09:00 AM - 09:30 AM'')
   \<and> fst (bookAppointment exampleCalendar (exampleEnv ''2'')
        (exampleBooked [exampleAppointment ''1'' ''09:00 AM - 09:30 AM'' 1736134200000 1736136000000])
        (exampleRequest ''09:00 AM - 09:30 AM''))
     = errorReply 409 ''This time slot is no longer available''
   \<and> appointments (fst (snd (bookAppointment exampleCalendar (exampleEnv ''2'')
        (exampleBooked [exampleAppointment ''1'' ''09:00 AM - 09:30 AM'' 1736134200000 1736136000000])
        (exampleRequest ''09:00 AM - 09:30 AM''))))
     = [exampleAppointment ''1'' ''09:00 AM - 09:30 AM'' 1736134200000 1736136000000]"
proof -
  let ?a = "exampleAppointment ''1'' ''09:00 AM - 09:30 AM'' 1736134200000 1736136000000"
  let ?st = "exampleBooked [?a]"
  let ?req = "exampleRequest ''09:00 AM - 09:30 AM''"
  let ?out = "bookAppointment exampleCalendar (exampleEnv ''2'') ?st ?req"
  have h1: "parseTimeSlot (textOf (b_date ?req)) (textOf (b_timeSlot ?req))
              = Some (''2025-01-06T09:00:00+05:30'', ''2025-01-06T09:30:00+05:30'')"
    by (simp add: exampleRequest_def textOf_def example_parse)
  have h4: "?a \<in> set (appointments ?st)" by (simp add: exampleBooked_def)
  have h5: "doctorId ?a = textOf (b_doctorId ?req)"
    by (simp add: exampleAppointment_def exampleRequest_def textOf_def)
  have h6: "status ?a \<noteq> ''cancelled''" by (simp add: exampleAppointment_def)
  have h7: "overlaps (Some 1736134200000) (Some 1736136000000) (startDateTime ?a) (endDateTime ?a)"
    by (simp add: exampleAppointment_def overlaps_def num_gt_def)
  have h8: "?out = (fst ?out, fst (snd ?out), snd (snd ?out))" by simp
  have adm: "admitted (exampleEnv ''2'') ?st ?req"
    by (simp add: admitted_def example_defs)
  note t = booking_conflict_rejected [OF h1 example_instants(1) example_instants(2) h4 h5 h6 h7 h8]
  show ?thesis using t adm by (simp add: exampleBooked_def)
qed

theorem booking_survives_mail_failure_witness:
  "smtpHost (exampleEnv ''1'') \<and> transportResult (exampleEnv ''1'') = Inl ''connect ECONNREFUSED''
   \<and> SendConfirmationEmail ''asha@example.org''
        \<in> set (snd (snd (bookAppointment exampleCalendar (exampleEnv ''1'') exampleState
                           (exampleRequest ''09:00 AM - 09:30 AM''))))
   \<and> (\<exists>a p link.
         fst (bookAppointment exampleCalendar (exampleEnv ''1'') exampleState
                (exampleRequest ''09:00 AM - 09:30 AM''))
           = okReply (BookedBody a p (Some (MailError ''connect ECONNREFUSED'')) link)
         \<and> appointments (fst (snd (bookAppointment exampleCalendar (exampleEnv ''1'') exampleState
                (exampleRequest ''09:00 AM - 09:30 AM''))))
             = appointments exampleState @ [a]
         \<and> status a = ''confirmed'')"
proof -
  let ?out = "bookAppointment exampleCalendar (exampleEnv ''1'') exampleState
                (exampleRequest ''09:00 AM - 09:30 AM'')"
  have h1: "?out = (fst ?out, fst (snd ?out), snd (snd ?out))" by simp
  have h2: "SendConfirmationEmail ''asha@example.org'' \<in> set (snd (snd ?out))"
    by (simp add: example_first_aligned)
  have h3: "smtpHost (exampleEnv ''1'')" by (simp add: exampleEnv_def)
  have h4: "transportResult (exampleEnv ''1'') = Inl ''connect ECONNREFUSED''"
    by (simp add: exampleEnv_def)
  note t = booking_survives_mail_failure [OF h1 h2 h3 h4]
  show ?thesis using t h2 h3 h4 by blast
qed

subsection \<open>A day marked unavailable\<close>

text \<open>
  Claim C6. For a well-formed date whose weekday the doctor's weekly template marks as
  not available, the availability handler answers with the empty slot list, and the only
  call it makes is the lookup of the doctor: neither the free/busy query of the calendar
  nor a query of the appointment collection.
\<close>

theorem unavailable_day_short_circuits:
  assumes "dateFormatOk d"
    and "find (\<lambda>x. d_doctorId x = did) (doctors st) = Some doc"
    and "d_availability doc = Some av"
    and "av (weekdayOf d) = Some day"
    and "\<not> available day"
  shows "doctorAvailability cal weekdayOf e st did (Some d)
           = (okReply (SlotsBody [] (Some ''Doctor not available on this day'')),
              [DoctorFindOne did])
         \<and> (\<forall>c a b. GetFreeBusy c a b \<notin> set (snd (doctorAvailability cal weekdayOf e st did (Some d))))
         \<and> (\<forall>a b. AppointmentFind a b \<notin> set (snd (doctorAvailability cal weekdayOf e st did (Some d))))
         \<and> (\<forall>a. AppointmentFindOne a \<notin> set (snd (doctorAvailability cal weekdayOf e st did (Some d))))"
proof -
  have "d \<noteq> []" using assms(1) by (auto simp: dateFormatOk_def)
  then have t: "truthy (Some d)" by (simp add: truthy_def)
  have "doctorAvailability cal weekdayOf e st did (Some d)
           = (okReply (SlotsBody [] (Some ''Doctor not available on this day'')),
              [DoctorFindOne did])"
    using assms t by (simp add: doctorAvailability_def textOf_def Let_def)
  then show ?thesis by simp
qed

theorem unavailable_day_short_circuits_witness:
  "doctorAvailability exampleCalendar exampleWeekday (exampleEnv ''1'') exampleState ''D-1''
     (Some ''2025-01-05'')
   = (okReply (SlotsBody [] (Some ''Doctor not available on this day'')), [DoctorFindOne ''D-1''])"
proof -
  have h1: "dateFormatOk ''2025-01-05''" by code_simp
  have h2: "find (\<lambda>x. d_doctorId x = ''D-1'') (doctors exampleState) = Some exampleDoctor"
    by (simp add: exampleState_def exampleDoctor_def)
  have h3: "d_availability exampleDoctor = Some exampleTemplate"
    by (simp add: exampleDoctor_def)
  have h4: "exampleTemplate (exampleWeekday ''2025-01-05'')
             = Some \<lparr> available = False, availStart = None, availEnd = None \<rparr>"
    by (simp add: exampleWeekday_def exampleTemplate_def)
  have h5: "\<not> available \<lparr> available = False, availStart = None, availEnd = None \<rparr>" by simp
  note t = unavailable_day_short_circuits [where av = exampleTemplate and weekdayOf = exampleWeekday
      and d = "''2025-01-05''" and cal = exampleCalendar and e = "exampleEnv ''1''",
      OF h1 h2 h3 h4 h5]
  then show ?thesis by (rule conjunct1)
qed

lemma available_day_queries:
  "snd (doctorAvailability exampleCalendar exampleWeekday (exampleEnv ''1'') exampleState ''D-1''
     (Some ''2025-01-06''))
   = [DoctorFindOne ''D-1'',
      GetFreeBusy ''cal-1'' ''2025-01-06T00:00:00+05:30'' ''2025-01-06T23:59:59+05:30'',
      AppointmentFind ''D-1'' ''2025-01-06'']"
proof -
  have h1: "dateFormatOk ''2025-01-06''" by code_simp
  show ?thesis
    by (simp add: doctorAvailability_def h1 exampleState_def exampleDoctor_def exampleWeekday_def
          exampleTemplate_def truthy_def textOf_def Let_def)
qed

subsection \<open>Registering twice\<close>

lemma find_append_None: "find P xs = None \<Longrightarrow> find P (xs @ [x]) = (if P x then Some x else None)"
  by (induction xs) (auto split: if_splits)














text \<open>
  When \<^verbatim>\<open>POST /patients\<close> finds the patient by the phone, the email of the request is not
  stored: after two calls no patient has it.
\<close>

lemma example_create_keeps_old_email:
  "filter (\<lambda>q. p_email q = Some ''new@example.org'')
     (patients (snd (createPatient (exampleEnv ''2'')
        (snd (createPatient (exampleEnv ''1'')
               (exampleBooked []\<lparr> patients := [examplePatient\<lparr> p_phone := Some ''555'' \<rparr>] \<rparr>)
               \<lparr> g_name = Some ''Asha'', g_email = Some ''new@example.org'',
                 g_phone = Some ''555'' \<rparr>))
        \<lparr> g_name = Some ''Asha'', g_email = Some ''new@example.org'', g_phone = Some ''555'' \<rparr>)))
   = []"
  by (simp add: createPatient_def exampleBooked_def examplePatient_def contactMatches_def
        orField_def truthy_def Let_def)

subsection \<open>Reading a generated label back\<close>

lemma digitChar_isDigit: "isDigit (digitChar n)"
proof -
  have "list_all isDigit ''0123456789''" by (simp add: isDigit_def)
  then have "\<forall>k < 10. isDigit (''0123456789'' ! k)"
    by (simp add: list_all_length)
  then show ?thesis by (simp add: digitChar_def)
qed

lemma digitVal_digitChar: "n < 10 \<Longrightarrow> digitVal (digitChar n) = n"
proof -
  assume "n < 10"
  then have "n \<in> set [0 ..< 10]" by simp
  moreover have "list_all (\<lambda>k. digitVal (digitChar k) = k) [0 ..< 10]"
    by code_simp
  ultimately show ?thesis unfolding list_all_iff by blast
qed

lemma digitsValue_two:
  "a < 10 \<Longrightarrow> b < 10 \<Longrightarrow> digitsValue [digitChar a, digitChar b] = 10 * a + b"
  by (simp add: digitsValue_def digitVal_digitChar)

lemma two_digit_text:
  assumes "0 \<le> i" and "i < 100"
  shows "padStart2 (toString i) = [digitChar (nat i div 10), digitChar (nat i mod 10)]"
proof (cases "nat i < 10")
  case True
  then have "natToString (nat i) = [digitChar (nat i)]" by (subst natToString.simps) simp
  moreover have "digitChar 0 = CHR ''0''" by (simp add: digitChar_def)
  ultimately show ?thesis using assms True by (simp add: padStart2_def toString_def)
next
  case False
  then have small: "nat i div 10 < 10" using assms by linarith
  have "natToString (nat i) = natToString (nat i div 10) @ [digitChar (nat i mod 10)]"
    using False by (subst natToString.simps) simp
  moreover have "natToString (nat i div 10) = [digitChar (nat i div 10)]"
    using small by (subst natToString.simps) simp
  ultimately show ?thesis using assms by (simp add: padStart2_def toString_def)
qed

lemma two_digit_value:
  assumes "0 \<le> i" and "i < 100"
  shows "twoDigits (padStart2 (toString i)) = Some (nat i)"
proof -
  have "nat i div 10 < 10" "nat i mod 10 < 10" using assms by linarith+
  then show ?thesis
    using assms by (simp add: two_digit_text twoDigits_def digitChar_isDigit digitsValue_two)
qed

lemma two_digit_text_eq:
  assumes "0 \<le> i" "i < 100" "0 \<le> j" "j < 100"
  shows "(padStart2 (toString i) = padStart2 (toString j)) = (i = j)"
proof
  assume "padStart2 (toString i) = padStart2 (toString j)"
  then have "twoDigits (padStart2 (toString i)) = twoDigits (padStart2 (toString j))" by simp
  then show "i = j" using assms by (simp add: two_digit_value)
qed simp

lemma matchHere_clock:
  assumes "isDigit d1" "isDigit d2" "isDigit d3" "isDigit d4"
    and "per = ''AM'' \<or> per = ''PM''"
  shows "matchHere (d1 # d2 # CHR '':'' # d3 # d4 # CHR '' '' # per @ rest)
           = Some ([d1, d2], [d3, d4], per)"
  using assms by (auto simp: matchHere_def periodHere_def isSpace_def upcase_def)

lemma parse_clock:
  assumes "0 \<le> dh" "dh < 100" "0 \<le> mi" "mi < 100" and "per = ''AM'' \<or> per = ''PM''"
  shows "timeMatch (padStart2 (toString dh) @ '':'' @ padStart2 (toString mi) @ '' '' @ per @ rest)
           = Some (padStart2 (toString dh), padStart2 (toString mi), per)"
  using assms
  by (simp add: two_digit_text matchHere_clock digitChar_isDigit)


lemma half_hour_text:
  assumes "0 \<le> mi" "mi < 60"
  shows "(padStart2 (toString mi) = ''30'') = (mi = 30)"
proof -
  have "padStart2 (toString 30) = ''30''" by (simp add: two_digit_text digitChar_def)
  then show ?thesis using two_digit_text_eq [of mi 30] assms by simp
qed

lemma parse_generated_clock:
  assumes "0 \<le> h" "h < 24" "0 \<le> mi" "mi < 60"
  shows "parseTimeSlot d (formatTimeDisplay h mi @ rest)
           = Some (d @ ''T'' @ padStart2 (toString h) @ '':'' @ padStart2 (toString mi) @ '':00+05:30'',
                   d @ ''T'' @ padStart2 (toString (h + (if mi = 30 then 1 else 0))) @ '':''
                     @ (if mi = 30 then ''00'' else ''30'') @ '':00+05:30'')"
proof -
  let ?dh = "if h > 12 then h - 12 else (if h = 0 then 12 else h)"
  let ?per = "if h \<ge> 12 then ''PM'' else ''AM''"
  have dh: "0 \<le> ?dh" "?dh < 100" using assms by auto
  have per: "?per = ''AM'' \<or> ?per = ''PM''" by simp
  have fmt: "formatTimeDisplay h mi @ rest
               = padStart2 (toString ?dh) @ '':'' @ padStart2 (toString mi) @ '' '' @ ?per @ rest"
    by (simp add: formatTimeDisplay_def Let_def)
  have mi100: "mi < 100" using assms by simp
  have m: "timeMatch (formatTimeDisplay h mi @ rest)
             = Some (padStart2 (toString ?dh), padStart2 (toString mi), ?per)"
    unfolding fmt by (rule parse_clock [OF dh assms(3) mi100 per])
  have val: "int (digitsValue (padStart2 (toString ?dh))) = ?dh"
  proof -
    have "nat ?dh div 10 < 10" "nat ?dh mod 10 < 10" using assms by auto
    then have "digitsValue (padStart2 (toString ?dh)) = nat ?dh"
      using dh by (simp add: two_digit_text digitsValue_two del: of_nat_eq_iff)
    then show ?thesis using dh by simp
  qed
  have up: "map upcase ''AM'' = ''AM''" "map upcase ''PM'' = ''PM''" by (simp_all add: upcase_def)
  have half: "(padStart2 (toString mi) = ''30'') = (mi = 30)"
    by (rule half_hour_text [OF assms(3,4)])
  consider "h = 0" | "1 \<le> h \<and> h \<le> 11" | "h = 12" | "13 \<le> h \<and> h \<le> 23"
    using assms by linarith
  then show ?thesis
  proof cases
    case 1
    then show ?thesis using m val up half by (simp add: parseTimeSlot_def Let_def)
  next
    case 2
    then show ?thesis using m val up half by (simp add: parseTimeSlot_def Let_def)
  next
    case 3
    then show ?thesis using m val up half by (simp add: parseTimeSlot_def Let_def)
  next
    case 4
    then show ?thesis using m val up half by (simp add: parseTimeSlot_def Let_def)
  qed
qed



lemma half_hour_later:
  fixes m :: int
  shows "m mod 60 = 30 \<Longrightarrow> (m + 30) div 60 = m div 60 + 1 \<and> (m + 30) mod 60 = 0"
    and "m mod 60 = 0 \<Longrightarrow> (m + 30) div 60 = m div 60 \<and> (m + 30) mod 60 = 30"
proof -
  define q where "q = m div 60"
  have decomp: "60 * q + m mod 60 = m" by (simp add: q_def)
  show "(m + 30) div 60 = m div 60 + 1 \<and> (m + 30) mod 60 = 0" if "m mod 60 = 30"
  proof -
    have e: "m + 30 = 60 * (q + 1)" using decomp that by (simp add: algebra_simps)
    have "(m + 30) div 60 = q + 1" "(m + 30) mod 60 = 0" unfolding e by simp_all
    then show ?thesis by (simp add: q_def)
  qed
  show "(m + 30) div 60 = m div 60 \<and> (m + 30) mod 60 = 30" if "m mod 60 = 0"
  proof -
    have e: "m + 30 = 30 + 60 * q" using decomp that by (simp add: algebra_simps)
    have "(m + 30) div 60 = q" "(m + 30) mod 60 = 30" unfolding e by simp_all
    then show ?thesis by (simp add: q_def)
  qed
qed

lemma aligned_minute:
  fixes m :: int
  assumes "m mod 30 = 0"
  shows "m mod 60 = 0 \<or> m mod 60 = 30"
proof -
  have "(m mod 60) mod 30 = m mod 30" by (simp add: mod_mod_cancel)
  then have "(m mod 60) mod 30 = 0" using assms by simp
  moreover have "0 \<le> m mod 60" "m mod 60 < 60" by simp_all
  ultimately show ?thesis by presburger
qed

lemma slot_label_read_back:
  assumes "0 \<le> m" and "m + 30 \<le> 1440"
  shows "\<exists>eISO. parseTimeSlot d (time (slotAt d m)) = Some (startISO (slotAt d m), eISO)
               \<and> (m mod 30 = 0 \<longrightarrow> eISO = endISO (slotAt d m))"
proof -
  let ?h = "m div 60" and ?mi = "m mod 60"
  let ?e = "d @ ''T'' @ padStart2 (toString (?h + (if ?mi = 30 then 1 else 0))) @ '':''
                     @ (if ?mi = 30 then ''00'' else ''30'') @ '':00+05:30''"
  have rem: "js_rem m 60 = ?mi" using assms by (simp add: js_rem_def)
  have rem': "js_rem (m + 30) 60 = (m + 30) mod 60" using assms by (simp add: js_rem_def)
  have range: "0 \<le> ?h" "?h < 24" "0 \<le> ?mi" "?mi < 60" using assms by auto
  have t: "time (slotAt d m) = formatTimeDisplay ?h ?mi
             @ ('' - '' @ formatTimeDisplay ((m + 30) div 60) (js_rem (m + 30) 60))"
    by (simp add: slotAt_def rem)
  have start: "startISO (slotAt d m)
                 = d @ ''T'' @ padStart2 (toString ?h) @ '':'' @ padStart2 (toString ?mi) @ '':00+05:30''"
    by (simp add: slotAt_def hhmm_def rem)
  have p: "parseTimeSlot d (time (slotAt d m)) = Some (startISO (slotAt d m), ?e)"
    unfolding t start by (rule parse_generated_clock [OF range])
  have zero: "padStart2 (toString 0) = ''00''" "padStart2 (toString 30) = ''30''"
    by (simp_all add: two_digit_text digitChar_def)
  have end_ok: "?e = endISO (slotAt d m)" if al: "m mod 30 = 0"
  proof (cases "?mi = 30")
    case True
    from half_hour_later(1) [OF True] show ?thesis
      using True by (simp add: slotAt_def hhmm_def rem' zero)
  next
    case False
    then have z: "?mi = 0" using aligned_minute [OF al] by simp
    from half_hour_later(2) [OF z] show ?thesis
      using z by (simp add: slotAt_def hhmm_def rem' zero)
  qed
  show ?thesis using p end_ok by blast
qed

lemma jsNumber_nonneg: "jsNumber s = Some n \<Longrightarrow> 0 \<le> n"
  by (auto simp: jsNumber_def split: if_splits)

lemma hourMinute_nonneg: "hourMinute s = Some (h, m) \<Longrightarrow> 0 \<le> h \<and> 0 \<le> m"
  by (auto simp: hourMinute_def jsNumber_nonneg split: list.splits option.splits)

lemma slotStarts_range:
  assumes "m \<in> set (slotStarts a b)"
  shows "a \<le> m \<and> m + 30 \<le> b \<and> (m - a) mod 30 = 0"
proof -
  from assms obtain k where k: "k < nat ((b - a) div 30)" "m = a + 30 * int k"
    by (auto simp: slotStarts_def)
  define q where "q = (b - a) div 30"
  have "int k + 1 \<le> q" using k(1) by (simp add: q_def)
  then have "30 * (int k + 1) \<le> 30 * q" by simp
  moreover have "30 * q \<le> b - a" by (simp add: q_def)
  ultimately have "30 * (int k + 1) \<le> b - a" by (rule order_trans)
  then show ?thesis using k by simp
qed


subsection \<open>The instants of a generated slot\<close>

text \<open>
  For a date text of ten characters and a time of day up to 24:00, the ISO text that the
  generator builds denotes the instant of that time of day at the offset +05:30.
\<close>

lemma hhmm_shape:
  assumes "0 \<le> m" "m \<le> 1440"
  shows "hhmm m = [digitChar (nat (m div 60) div 10), digitChar (nat (m div 60) mod 10), CHR '':'',
                   digitChar (nat (m mod 60) div 10), digitChar (nat (m mod 60) mod 10)]"
proof -
  have "0 \<le> m div 60" "m div 60 < 100" "0 \<le> m mod 60" "m mod 60 < 100" using assms by auto
  then show ?thesis using assms by (simp add: hhmm_def js_rem_def two_digit_text)
qed

lemma slot_text_instant:
  assumes "0 \<le> m" "m \<le> 1440" "length d = 10"
  shows "dateGetTime cal (d @ ''T'' @ hhmm m @ '':00+05:30'')
           = map_option (\<lambda>base. base + m * 60000 - 19800000) (cal d)"
proof -
  let ?h = "nat (m div 60)" and ?mi = "nat (m mod 60)"
  have b: "?h div 10 < 10" "?h mod 10 < 10" "?mi div 10 < 10" "?mi mod 10 < 10"
    using assms by auto
  have hv: "twoDigits [digitChar (?h div 10), digitChar (?h mod 10)] = Some ?h"
    using b by (simp add: twoDigits_def digitChar_isDigit digitsValue_two)
  have mv: "twoDigits [digitChar (?mi div 10), digitChar (?mi mod 10)] = Some ?mi"
    using b by (simp add: twoDigits_def digitChar_isDigit digitsValue_two)
  have zv: "twoDigits ''00'' = Some 0" by code_simp
  have range: "(?h < 24 \<and> ?mi < 60) \<or> (?h = 24 \<and> ?mi = 0)"
  proof (cases "m = 1440")
    case True
    then show ?thesis by simp
  next
    case False
    define q r where "q = m div 60" and "r = m mod 60"
    have "q < 24" using False assms by (simp add: q_def)
    moreover have "r < 60" by (simp add: r_def)
    ultimately have "nat q < 24 \<and> nat r < 60" by linarith
    then show ?thesis by (simp add: q_def r_def)
  qed
  have val: "(int ?h * 60 + int ?mi) * 60 * 1000 = m * 60000"
  proof -
    define q r where "q = m div 60" and "r = m mod 60"
    have e: "m = 60 * q + r" by (simp add: q_def r_def)
    have "(q * 60 + r) * 60 * 1000 = m * 60000" unfolding e by (simp add: algebra_simps)
    moreover have "int ?h = q" "int ?mi = r" using assms by (simp_all add: q_def r_def)
    ultimately show ?thesis by simp
  qed
  show ?thesis
    using assms(3) range val
    by (simp add: dateGetTime_def hhmm_shape [OF assms(1,2)] hv mv zv Let_def)
qed


lemma slot_instants:
  assumes "0 \<le> m" "m + 30 \<le> 1440" "length d = 10"
  shows "dateGetTime cal (startISO (slotAt d m))
           = map_option (\<lambda>base. base + m * 60000 - 19800000) (cal d)"
    and "dateGetTime cal (endISO (slotAt d m))
           = map_option (\<lambda>base. base + (m + 30) * 60000 - 19800000) (cal d)"
  using assms slot_text_instant [of m d cal] slot_text_instant [of "m + 30" d cal]
  by (simp_all add: slotAt_def)

lemma finishBooking_status:
  "httpStatus (fst (finishBooking e st1 calls1 req doctor' patient' sISO eISO start' end')) \<noteq> 400"
  by (cases "appointmentSaveError (appointments st1)
               (newAppointment e req doctor' patient' (googleEventOf e) start' end')")
     (simp_all add: finishBooking_def Let_def errorReply_def okReply_def)

lemma bookSlot_status:
  assumes "parseTimeSlot (textOf (b_date req)) (textOf (b_timeSlot req)) = Some isos"
  shows "httpStatus (fst (bookSlot cal e st1 calls1 req doctor' patient')) \<noteq> 400"
proof -
  obtain sISO eISO where isos: "isos = (sISO, eISO)" by (cases isos)
  show ?thesis
  proof (cases "dateGetTime cal sISO")
    case None
    then show ?thesis using assms isos by (simp add: bookSlot_def errorReply_def)
  next
    case s: (Some start')
    show ?thesis
    proof (cases "dateGetTime cal eISO")
      case None
      then show ?thesis using assms isos s by (simp add: bookSlot_def errorReply_def)
    next
      case en: (Some end')
      show ?thesis
      proof (cases "find (conflictsWith (d_doctorId doctor') (Some start') (Some end'))
                      (appointments st1)")
        case (Some c)
        then show ?thesis using assms isos s en by (simp add: bookSlot_def errorReply_def)
      next
        case None
        then show ?thesis using assms isos s en
          by (simp add: bookSlot_def finishBooking_status)
      qed
    qed
  qed
qed

text \<open>
  Claim C4, as amended. For working hours that end by 24:00, the handler's reading of the
  label of every generated slot yields the slot's own start text, and hence its start
  instant; when the working hours start on a full or half hour it yields the slot's own
  end text and instant as well. A slot text in which the pattern of the handler (two
  digits, a colon, two digits, blanks, AM or PM) occurs nowhere adds no appointment and is
  not answered with success, and the answer is status 400 once the request reaches the
  reading of the slot. A request that reaches the reading of the slot with a text in which
  the pattern does occur is not answered with status 400.
\<close>

theorem generated_label_read_back:
  assumes "hourMinute startTime' = Some (startHour, startMinute)"
    and "hourMinute endTime' = Some (endHour, endMinute)"
    and "endHour * 60 + endMinute \<le> 24 * 60"
    and "s \<in> set (generateAvailableSlots cal date' startTime' endTime' busyPeriods
                     existingAppointments)"
  shows "(\<exists>sISO eISO. parseTimeSlot date' (time s) = Some (sISO, eISO)
              \<and> sISO = startISO s \<and> dateGetTime cal sISO = dateGetTime cal (startISO s)
              \<and> (startMinute mod 30 = 0 \<longrightarrow>
                    eISO = endISO s \<and> dateGetTime cal eISO = dateGetTime cal (endISO s)))
         \<and> (timeMatch (textOf (b_timeSlot req)) = None \<longrightarrow>
              appointments (fst (snd (bookAppointment cal e st req))) = appointments st
              \<and> httpStatus (fst (bookAppointment cal e st req)) \<noteq> 200
              \<and> (admitted e st req \<longrightarrow>
                    fst (bookAppointment cal e st req) = errorReply 400 ''Invalid time slot format''))
         \<and> (admitted e st req \<and> timeMatch (textOf (b_timeSlot req)) \<noteq> None \<longrightarrow>
              httpStatus (fst (bookAppointment cal e st req)) \<noteq> 400)"
proof -
  let ?dayStart = "startHour * 60 + startMinute"
  let ?dayEnd = "endHour * 60 + endMinute"
  obtain m where m: "m \<in> set (slotStarts ?dayStart ?dayEnd)" "s = slotAt date' m"
    using assms(1,2,4) by (auto simp: gen_filter)
  from slotStarts_range [OF m(1)]
  have r: "?dayStart \<le> m" "m + 30 \<le> ?dayEnd" "(m - ?dayStart) mod 30 = 0" by simp_all
  have nn: "0 \<le> startHour" "0 \<le> startMinute" using hourMinute_nonneg [OF assms(1)] by simp_all
  have m0: "0 \<le> m" using r(1) nn by simp
  have m1: "m + 30 \<le> 1440" using r(2) assms(3) by simp
  have al: "m mod 30 = 0" if "startMinute mod 30 = 0"
  proof -
    have "?dayStart mod 30 = 0" using that by presburger
    then show ?thesis using r(3) by presburger
  qed
  from slot_label_read_back [OF m0 m1, of date']
  have "\<exists>eISO. parseTimeSlot date' (time s) = Some (startISO s, eISO)
              \<and> (startMinute mod 30 = 0 \<longrightarrow> eISO = endISO s)"
    using m(2) al by blast
  then have first: "\<exists>sISO eISO. parseTimeSlot date' (time s) = Some (sISO, eISO)
              \<and> sISO = startISO s \<and> dateGetTime cal sISO = dateGetTime cal (startISO s)
              \<and> (startMinute mod 30 = 0 \<longrightarrow>
                    eISO = endISO s \<and> dateGetTime cal eISO = dateGetTime cal (endISO s))"
    by auto
  have second: "appointments (fst (snd (bookAppointment cal e st req))) = appointments st
              \<and> httpStatus (fst (bookAppointment cal e st req)) \<noteq> 200
              \<and> (admitted e st req \<longrightarrow>
                    fst (bookAppointment cal e st req) = errorReply 400 ''Invalid time slot format'')"
    if none: "timeMatch (textOf (b_timeSlot req)) = None"
  proof -
    have p: "parseTimeSlot (textOf (b_date req)) (textOf (b_timeSlot req)) = None"
      using none by (simp add: parseTimeSlot_def)
    then have "refusedOutcome st (bookAppointment cal e st req)"
      using bookAppointment_outcome [of st cal e req] by auto
    then have a: "appointments (fst (snd (bookAppointment cal e st req))) = appointments st
              \<and> httpStatus (fst (bookAppointment cal e st req)) \<noteq> 200"
      by (auto simp: refusedOutcome_def split: prod.splits)
    have b: "fst (bookAppointment cal e st req) = errorReply 400 ''Invalid time slot format''"
      if "admitted e st req"
    proof -
      from admitted_bookSlot [OF that, of cal]
      obtain doctor' patient' ps calls1 where
        "bookAppointment cal e st req
               = bookSlot cal e (st\<lparr> patients := ps \<rparr>) calls1 req doctor' patient'"
        by blast
      then show ?thesis using p by (simp add: bookSlot_def)
    qed
    show ?thesis using a b by blast
  qed
  have third: "httpStatus (fst (bookAppointment cal e st req)) \<noteq> 400"
    if adm: "admitted e st req" and some: "timeMatch (textOf (b_timeSlot req)) \<noteq> None"
  proof -
    obtain isos where p: "parseTimeSlot (textOf (b_date req)) (textOf (b_timeSlot req)) = Some isos"
      using some by (auto simp: parseTimeSlot_def Let_def split: option.splits prod.splits)
    from admitted_bookSlot [OF adm, of cal]
    obtain doctor' patient' ps calls1 where
      "bookAppointment cal e st req
             = bookSlot cal e (st\<lparr> patients := ps \<rparr>) calls1 req doctor' patient'"
      by blast
    then show ?thesis using bookSlot_status [OF p] by simp
  qed
  show ?thesis using first second third by blast
qed

lemma example_half_label:
  "bookAppointment exampleCalendar (exampleEnv ''1'') exampleState (exampleRequest ''09:00 AM'')
   = (okReply (BookedBody (exampleAppointment ''1'' ''09:00 AM'' 1736134200000 1736136000000)
                 examplePatient (Some (MailError ''connect ECONNREFUSED'')) None),
      exampleBooked [exampleAppointment ''1'' ''09:00 AM'' 1736134200000 1736136000000],
      [DoctorFindOne ''D-1'', PatientFindOne, PatientSave ''P-1'', AppointmentFindOne ''D-1'',
       CreateEvent ''2025-01-06T09:00:00+05:30'' ''2025-01-06T09:30:00+05:30'',
       AppointmentSave ''A-1'', SendConfirmationEmail ''asha@example.org''])"
proof -
  have p: "parseTimeSlot ''2025-01-06'' ''09:00 AM''
     = Some (''2025-01-06T09:00:00+05:30'', ''2025-01-06T09:30:00+05:30'')"
    by code_simp
  show ?thesis by (simp add: example_defs p)
qed

text \<open>
  Claim C4 fails as stated, twice. The text \<^verbatim>\<open>09:00 AM\<close> is not in the label format, yet
  the handler books it. And for working hours from 09:15 the generator's first slot ends
  at 09:45, while the handler reads its label as ending at 09:30, a different instant.
\<close>

theorem label_round_trip_counterexample:
  "\<not> labelFormat ''09:00 AM''
   \<and> httpStatus (fst (bookAppointment exampleCalendar (exampleEnv ''1'') exampleState
                        (exampleRequest ''09:00 AM''))) = 200
   \<and> map timeSlot (appointments (fst (snd (bookAppointment exampleCalendar (exampleEnv ''1'')
                        exampleState (exampleRequest ''09:00 AM''))))) = [''09:00 AM'']
   \<and> slotAt ''2025-01-06'' 555
        \<in> set (generateAvailableSlots exampleCalendar ''2025-01-06'' ''09:15'' ''10:30'' [] [])
   \<and> time (slotAt ''2025-01-06'' 555) = ''09:15 AM - 09:45 AM''
   \<and> endISO (slotAt ''2025-01-06'' 555) = ''2025-01-06T09:45:00+05:30''
   \<and> parseTimeSlot ''2025-01-06'' (time (slotAt ''2025-01-06'' 555))
        = Some (''2025-01-06T09:15:00+05:30'', ''2025-01-06T09:30:00+05:30'')
   \<and> dateGetTime exampleCalendar ''2025-01-06T09:45:00+05:30'' = Some 1736136900000
   \<and> dateGetTime exampleCalendar ''2025-01-06T09:30:00+05:30'' = Some 1736136000000"
proof -
  have a: "\<not> labelFormat ''09:00 AM''" by (simp add: labelFormat_def)
  have b: "httpStatus (fst (bookAppointment exampleCalendar (exampleEnv ''1'') exampleState
                        (exampleRequest ''09:00 AM''))) = 200"
    "map timeSlot (appointments (fst (snd (bookAppointment exampleCalendar (exampleEnv ''1'')
                        exampleState (exampleRequest ''09:00 AM''))))) = [''09:00 AM'']"
    by (simp_all add: example_half_label okReply_def exampleBooked_def exampleAppointment_def)
  have hm: "hourMinute ''09:15'' = Some (9, 15)" "hourMinute ''10:30'' = Some (10, 30)"
    by code_simp+
  have st: "slotStarts 555 630 = [555, 585]"
    by (simp add: slotStarts_def upt_conv_Cons)
  have c: "slotAt ''2025-01-06'' 555
        \<in> set (generateAvailableSlots exampleCalendar ''2025-01-06'' ''09:15'' ''10:30'' [] [])"
    by (simp add: gen_filter hm st slotFree_nothing)
  have d: "time (slotAt ''2025-01-06'' 555) = ''09:15 AM - 09:45 AM''"
    "endISO (slotAt ''2025-01-06'' 555) = ''2025-01-06T09:45:00+05:30''"
    by code_simp+
  have e: "parseTimeSlot ''2025-01-06'' ''09:15 AM - 09:45 AM''
        = Some (''2025-01-06T09:15:00+05:30'', ''2025-01-06T09:30:00+05:30'')"
    by code_simp
  show ?thesis using a b c d e example_instants(2,3) by simp
qed

theorem generated_label_read_back_witness:
  "slotAt ''2025-01-06'' 570
     \<in> set (generateAvailableSlots exampleCalendar ''2025-01-06'' ''09:00'' ''11:00'' [] [])
   \<and> parseTimeSlot ''2025-01-06'' (time (slotAt ''2025-01-06'' 570))
       = Some (startISO (slotAt ''2025-01-06'' 570), endISO (slotAt ''2025-01-06'' 570))
   \<and> timeMatch (textOf (b_timeSlot (exampleRequest ''half past nine''))) = None
   \<and> admitted (exampleEnv ''1'') exampleState (exampleRequest ''half past nine'')
   \<and> fst (bookAppointment exampleCalendar (exampleEnv ''1'') exampleState
            (exampleRequest ''half past nine''))
       = errorReply 400 ''Invalid time slot format''
   \<and> admitted (exampleEnv ''1'') exampleState (exampleRequest ''09:00 AM'')
   \<and> timeMatch (textOf (b_timeSlot (exampleRequest ''09:00 AM''))) \<noteq> None
   \<and> httpStatus (fst (bookAppointment exampleCalendar (exampleEnv ''1'') exampleState
                        (exampleRequest ''09:00 AM''))) \<noteq> 400"
proof -
  have hm: "hourMinute ''09:00'' = Some (9, 0)" "hourMinute ''11:00'' = Some (11, 0)"
    by code_simp+
  have le: "(11::int) * 60 + 0 \<le> 24 * 60" by simp
  have st: "slotStarts 540 660 = [540, 570, 600, 630]"
    by (simp add: slotStarts_def upt_conv_Cons)
  have mem: "slotAt ''2025-01-06'' 570
     \<in> set (generateAvailableSlots exampleCalendar ''2025-01-06'' ''09:00'' ''11:00'' [] [])"
    by (simp add: gen_filter hm st slotFree_nothing)
  have nomatch: "timeMatch (textOf (b_timeSlot (exampleRequest ''half past nine''))) = None"
    by code_simp
  have adm: "admitted (exampleEnv ''1'') exampleState (exampleRequest ''half past nine'')"
    by (simp add: admitted_def example_defs)
  have match: "timeMatch (textOf (b_timeSlot (exampleRequest ''09:00 AM''))) \<noteq> None"
    by code_simp
  have adm2: "admitted (exampleEnv ''1'') exampleState (exampleRequest ''09:00 AM'')"
    by (simp add: admitted_def example_defs)
  note t = generated_label_read_back [OF hm(1) hm(2) le mem,
      where req = "exampleRequest ''half past nine''" and e = "exampleEnv ''1''"
        and st = exampleState]
  note u = generated_label_read_back [OF hm(1) hm(2) le mem,
      where req = "exampleRequest ''09:00 AM''" and e = "exampleEnv ''1''"
        and st = exampleState]
  have "httpStatus (fst (bookAppointment exampleCalendar (exampleEnv ''1'') exampleState
                        (exampleRequest ''09:00 AM''))) \<noteq> 400"
    using u adm2 match by blast
  then show ?thesis using t mem nomatch adm adm2 match by auto
qed

subsection \<open>A conflict that the handler misses\<close>

lemma example_parse_ten:
  "parseTimeSlot ''2025-01-06'' ''10:00 AM - 10:30 AM''
     = Some (''2025-01-06T10:00:00+05:30'', ''2025-01-06T10:30:00+05:30'')"
  by code_simp

lemma example_instants_ten:
  "dateGetTime exampleCalendar ''2025-01-06T10:00:00+05:30'' = Some 1736137800000"
  "dateGetTime exampleCalendar ''2025-01-06T10:30:00+05:30'' = Some 1736139600000"
  by (simp_all add: dateGetTime_def exampleCalendar_def twoDigits_def isDigit_def
        digitsValue_def digitVal_def)

lemma example_first_ten:
  "bookAppointment exampleCalendar (exampleEnv ''1'') exampleState
     (exampleRequest ''10:00 AM - 10:30 AM'')
   = (okReply (BookedBody (exampleAppointment ''1'' ''10:00 AM - 10:30 AM'' 1736137800000 1736139600000)
                 examplePatient (Some (MailError ''connect ECONNREFUSED'')) None),
      exampleBooked [exampleAppointment ''1'' ''10:00 AM - 10:30 AM'' 1736137800000 1736139600000],
      [DoctorFindOne ''D-1'', PatientFindOne, PatientSave ''P-1'', AppointmentFindOne ''D-1'',
       CreateEvent ''2025-01-06T10:00:00+05:30'' ''2025-01-06T10:30:00+05:30'',
       AppointmentSave ''A-1'', SendConfirmationEmail ''asha@example.org''])"
  by (simp add: example_defs example_parse_ten example_instants_ten)

lemma example_second_overlapping:
  "bookAppointment exampleCalendar (exampleEnv ''2'')
     (exampleBooked [exampleAppointment ''1'' ''10:00 AM - 10:30 AM'' 1736137800000 1736139600000])
     (exampleRequest ''09:45 AM - 10:15 AM'')
   = (okReply (BookedBody (exampleAppointment ''2'' ''09:45 AM - 10:15 AM'' 1736136900000 1736136000000)
                 examplePatient (Some (MailError ''connect ECONNREFUSED'')) None),
      exampleBooked [exampleAppointment ''1'' ''10:00 AM - 10:30 AM'' 1736137800000 1736139600000,
                     exampleAppointment ''2'' ''09:45 AM - 10:15 AM'' 1736136900000 1736136000000],
      [DoctorFindOne ''D-1'', PatientFindOne, PatientSave ''P-1'', AppointmentFindOne ''D-1'',
       CreateEvent ''2025-01-06T09:45:00+05:30'' ''2025-01-06T09:30:00+05:30'',
       AppointmentSave ''A-2'', SendConfirmationEmail ''asha@example.org''])"
  by (simp add: example_defs)

text \<open>
  Claim C3, at an input where it fails. The appointment from 10:00 to 10:30 is stored as
  confirmed for the doctor. The slot \<^verbatim>\<open>09:45 AM - 10:15 AM\<close>, whose interval (as the
  generator builds it) overlaps that appointment, is then requested for the same doctor:
  the request is answered with status 200, not 409, and a second confirmed appointment is
  stored, because the handler compares the interval from 09:45 to 09:30 that it derives.
\<close>

theorem overlapping_unaligned_slot_booked:
  "map httpStatus
     (fst (performAll exampleCalendar exampleState
        [Book (exampleEnv ''1'') (exampleRequest ''10:00 AM - 10:30 AM''),
         Book (exampleEnv ''2'') (exampleRequest ''09:45 AM - 10:15 AM'')])) = [200, 200]
   \<and> map (\<lambda>a. (doctorId a, timeSlot a, status a, startDateTime a, endDateTime a))
       (appointments (snd (performAll exampleCalendar exampleState
          [Book (exampleEnv ''1'') (exampleRequest ''10:00 AM - 10:30 AM''),
           Book (exampleEnv ''2'') (exampleRequest ''09:45 AM - 10:15 AM'')])))
     = [(''D-1'', ''10:00 AM - 10:30 AM'', ''confirmed'', Some 1736137800000, Some 1736139600000),
        (''D-1'', ''09:45 AM - 10:15 AM'', ''confirmed'', Some 1736136900000, Some 1736136000000)]
   \<and> time (slotAt ''2025-01-06'' 585) = ''09:45 AM - 10:15 AM''
   \<and> dateGetTime exampleCalendar (startISO (slotAt ''2025-01-06'' 585)) = Some 1736136900000
   \<and> dateGetTime exampleCalendar (endISO (slotAt ''2025-01-06'' 585)) = Some 1736138700000
   \<and> overlaps (Some 1736136900000) (Some 1736138700000)
         (Some 1736137800000) (Some 1736139600000)
   \<and> isSlotConflicting exampleCalendar (startISO (slotAt ''2025-01-06'' 585))
         (endISO (slotAt ''2025-01-06'' 585)) []
         [exampleAppointment ''1'' ''10:00 AM - 10:30 AM'' 1736137800000 1736139600000]"
proof -
  have run: "performAll exampleCalendar exampleState
        [Book (exampleEnv ''1'') (exampleRequest ''10:00 AM - 10:30 AM''),
         Book (exampleEnv ''2'') (exampleRequest ''09:45 AM - 10:15 AM'')]
     = ([okReply (BookedBody (exampleAppointment ''1'' ''10:00 AM - 10:30 AM'' 1736137800000 1736139600000)
                 examplePatient (Some (MailError ''connect ECONNREFUSED'')) None),
         okReply (BookedBody (exampleAppointment ''2'' ''09:45 AM - 10:15 AM'' 1736136900000 1736136000000)
                 examplePatient (Some (MailError ''connect ECONNREFUSED'')) None)],
        exampleBooked [exampleAppointment ''1'' ''10:00 AM - 10:30 AM'' 1736137800000 1736139600000,
                     exampleAppointment ''2'' ''09:45 AM - 10:15 AM'' 1736136900000 1736136000000])"
    by (simp add: example_first_ten example_second_overlapping)
  have label: "time (slotAt ''2025-01-06'' 585) = ''09:45 AM - 10:15 AM''" by code_simp
  have len: "length ''2025-01-06'' = 10" by simp
  have cal: "exampleCalendar ''2025-01-06'' = Some 1736121600000"
    by (simp add: exampleCalendar_def)
  have inst: "dateGetTime exampleCalendar (startISO (slotAt ''2025-01-06'' 585)) = Some 1736136900000"
    "dateGetTime exampleCalendar (endISO (slotAt ''2025-01-06'' 585)) = Some 1736138700000"
    using slot_instants [of 585 "''2025-01-06''" exampleCalendar] by (simp_all add: cal)
  have ov: "overlaps (Some 1736136900000) (Some 1736138700000)
              (Some 1736137800000) (Some 1736139600000)"
    by (simp add: overlaps_def num_gt_def)
  have conf: "isSlotConflicting exampleCalendar (startISO (slotAt ''2025-01-06'' 585))
         (endISO (slotAt ''2025-01-06'' 585)) []
         [exampleAppointment ''1'' ''10:00 AM - 10:30 AM'' 1736137800000 1736139600000]"
    by (simp add: isSlotConflicting_def inst exampleAppointment_def num_gt_def)
  have stored: "map (\<lambda>a. (doctorId a, timeSlot a, status a, startDateTime a, endDateTime a))
       (appointments (exampleBooked
          [exampleAppointment ''1'' ''10:00 AM - 10:30 AM'' 1736137800000 1736139600000,
           exampleAppointment ''2'' ''09:45 AM - 10:15 AM'' 1736136900000 1736136000000]))
     = [(''D-1'', ''10:00 AM - 10:30 AM'', ''confirmed'', Some 1736137800000, Some 1736139600000),
        (''D-1'', ''09:45 AM - 10:15 AM'', ''confirmed'', Some 1736136900000, Some 1736136000000)]"
    by (simp add: exampleBooked_def exampleAppointment_def)
  show ?thesis
    unfolding run using label inst ov conf stored by (simp add: okReply_def)
qed

end
